theory Spec2Isabelle
  imports Main "HOL-Library.Word"
begin

unbundle bit_operations_syntax

section \<open>task1.c: the element that occurs an odd number of times\<close>

text \<open>
  \<^verbatim>\<open>int32_t findUnique(int32_t *a, int32_t n)\<close> folds \<^verbatim>\<open>result ^= a[i]\<close> over
  \<^verbatim>\<open>i = 0 .. n - 1\<close>. An \<^verbatim>\<open>int32_t\<close> is a \<open>32 word\<close> read through \<open>sint\<close>; the loop
  test \<^verbatim>\<open>i < n\<close> is the signed comparison. The array behind the pointer is a list: a
  read outside of it is undefined behaviour in C and \<open>None\<close> here.
\<close>

function findUnique_loop :: "32 word list \<Rightarrow> 32 word \<Rightarrow> 32 word \<Rightarrow> 32 word \<Rightarrow> 32 word option" where
  "findUnique_loop a n i result =
     (if i <s n
      then (if 0 \<le> sint i \<and> nat (sint i) < length a
            then findUnique_loop a n (i + 1) (result XOR a ! nat (sint i))
            else None)
      else Some result)"
  by pat_completeness auto

lemma sint_succ_below:
  fixes i n :: "32 word"
  assumes "i <s n"
  shows "sint (i + 1) = sint i + 1"
proof -
  have "sint i < sint n" using assms by (simp add: word_sless_alt)
  moreover have "sint n < 2 ^ 31" using sint_lt [of n] by simp
  moreover have "- (2 ^ 31) \<le> sint i" using sint_ge [of i] by simp
  ultimately have "signed_take_bit 31 (sint i + 1) = sint i + 1"
    by (intro signed_take_bit_int_eq_self) simp_all
  then show ?thesis by (simp add: sint_word_ariths)
qed

termination findUnique_loop
  by (relation "measure (\<lambda>(a, n, i, r). nat (sint n - sint i))")
     (auto simp: sint_succ_below word_sless_alt)

definition findUnique :: "32 word list \<Rightarrow> 32 word \<Rightarrow> 32 word option" where
  "findUnique a n = findUnique_loop a n 0 0"

section \<open>task2.c: the register protocol over UDP\<close>

subsection \<open>Constants and data structures\<close>

definition PACKET_MAX_SIZE :: nat where "PACKET_MAX_SIZE = 14"

definition PACKET_TYPE_COMMAND :: "8 word" where "PACKET_TYPE_COMMAND = 1"
definition PACKET_TYPE_RESPONSE :: "8 word" where "PACKET_TYPE_RESPONSE = 2"
definition PACKET_TYPE_REQ_ACK :: "8 word" where "PACKET_TYPE_REQ_ACK = 3"
definition PACKET_TYPE_REPLY_ACK :: "8 word" where "PACKET_TYPE_REPLY_ACK = 4"

definition COMMAND_TYPE_READ_REGISTER :: "8 word" where "COMMAND_TYPE_READ_REGISTER = 0"
definition COMMAND_TYPE_WRITE_REGISTER :: "8 word" where "COMMAND_TYPE_WRITE_REGISTER = 1"

definition RESPONSE_FAULT :: "8 word" where "RESPONSE_FAULT = 0"
definition RESPONSE_OK :: "8 word" where "RESPONSE_OK = 1"

text \<open>\<^verbatim>\<open>attempt\<close> is a \<^verbatim>\<open>uint8_t\<close>, compared with this constant.\<close>

definition SEND_RESPONSE_ATTEMPTS :: "8 word" where "SEND_RESPONSE_ATTEMPTS = 3"

text \<open>
  Waiting times are kept in milliseconds; \<^verbatim>\<open>portMAX_DELAY\<close> is the wait without a limit.
\<close>

datatype ticks = Ms nat | portMAX_DELAY

definition pdMS_TO_TICKS :: "nat \<Rightarrow> ticks" where "pdMS_TO_TICKS ms = Ms ms"

definition TIMEOUT_SEND_COMMAND_MS :: nat where "TIMEOUT_SEND_COMMAND_MS = 1000"
definition TIMEOUT_SEND_REPLY_ACK_MS :: nat where "TIMEOUT_SEND_REPLY_ACK_MS = 1000"
definition TIMEOUT_RECEIVE_COMMAND_MS :: ticks where "TIMEOUT_RECEIVE_COMMAND_MS = portMAX_DELAY"
definition TIMEOUT_RECEIVE_REPLY_ACK_MS :: nat where "TIMEOUT_RECEIVE_REPLY_ACK_MS = 100"

text \<open>
  The three structs. Field names are global in a theory, so each carries the initial of
  its struct: \<open>c_packet_id\<close> is \<^verbatim>\<open>commandData.packet_id\<close>, \<open>r_\<close> is for
  \<^verbatim>\<open>responseData_t\<close> and \<open>a_\<close> for \<^verbatim>\<open>ackData_t\<close>.
\<close>

record commandData_t =
  c_packet_id :: "32 word"
  c_command_type :: "8 word"
  c_reg_address :: "32 word"
  c_reg_value :: "32 word"

record responseData_t =
  r_packet_id :: "32 word"
  r_response_status :: "8 word"
  r_reg_address :: "32 word"
  r_reg_value :: "32 word"

record ackData_t =
  a_packet_id :: "32 word"

subsection \<open>The packet layout\<close>

text \<open>
  Modelled from the spec: \<^verbatim>\<open>makePacket\<close>, \<^verbatim>\<open>packetToCommandData\<close> and
  \<^verbatim>\<open>packetToReplyAck\<close> are called in task2.c but their bodies are not part of the
  source. The layout is the one of the comment at the head of task2.c and of sections 3
  and 6 of the specification: byte 0 the packet type, bytes 1 to 4 the packet id, and for
  Command and Response packets byte 5 the command type or response status, bytes 6 to 9
  the register address and bytes 10 to 13 the register value. Neither fixes the byte
  order of the 32-bit fields, so it is a parameter. The source passes the struct by an
  untyped pointer and its size; \<open>payload\<close> is the struct behind the pointer.
\<close>

datatype byte_order = LittleEndian | BigEndian

definition u32_to_bytes :: "byte_order \<Rightarrow> 32 word \<Rightarrow> 8 word list" where
  "u32_to_bytes bo w =
     (let le = [ucast w, ucast (drop_bit 8 w), ucast (drop_bit 16 w), ucast (drop_bit 24 w)]
      in case bo of LittleEndian \<Rightarrow> le | BigEndian \<Rightarrow> rev le)"

definition bytes_to_u32 :: "byte_order \<Rightarrow> 8 word list \<Rightarrow> 32 word" where
  "bytes_to_u32 bo bs =
     foldr (\<lambda>b acc. ucast b OR push_bit 8 acc)
       (case bo of LittleEndian \<Rightarrow> bs | BigEndian \<Rightarrow> rev bs) 0"

datatype payload = CommandData commandData_t | ResponseData responseData_t | AckData ackData_t

definition makePacket :: "byte_order \<Rightarrow> 8 word \<Rightarrow> payload \<Rightarrow> 8 word list" where
  "makePacket bo packet_type data =
     packet_type #
     (case data of
        CommandData c \<Rightarrow>
          u32_to_bytes bo (c_packet_id c) @ [c_command_type c]
          @ u32_to_bytes bo (c_reg_address c) @ u32_to_bytes bo (c_reg_value c)
      | ResponseData r \<Rightarrow>
          u32_to_bytes bo (r_packet_id r) @ [r_response_status r]
          @ u32_to_bytes bo (r_reg_address r) @ u32_to_bytes bo (r_reg_value r)
      | AckData a \<Rightarrow> u32_to_bytes bo (a_packet_id a))"

text \<open>
  Modelled from the spec: the four frame kinds of section 3 and \<open>encode\<close> of section 4.1,
  which is \<^verbatim>\<open>makePacket\<close> applied to the type code of the kind and the record of the frame.
\<close>

datatype frame_kind = Command | Response | RequestAck | ReplyAck

datatype frame =
  CommandFrame commandData_t
| ResponseFrame responseData_t
| RequestAckFrame ackData_t
| ReplyAckFrame ackData_t

fun kind_of :: "frame \<Rightarrow> frame_kind" where
  "kind_of (CommandFrame c) = Command"
| "kind_of (ResponseFrame r) = Response"
| "kind_of (RequestAckFrame a) = RequestAck"
| "kind_of (ReplyAckFrame a) = ReplyAck"

fun encode :: "byte_order \<Rightarrow> frame \<Rightarrow> 8 word list" where
  "encode bo (CommandFrame c) = makePacket bo PACKET_TYPE_COMMAND (CommandData c)"
| "encode bo (ResponseFrame r) = makePacket bo PACKET_TYPE_RESPONSE (ResponseData r)"
| "encode bo (RequestAckFrame a) = makePacket bo PACKET_TYPE_REQ_ACK (AckData a)"
| "encode bo (ReplyAckFrame a) = makePacket bo PACKET_TYPE_REPLY_ACK (AckData a)"

text \<open>A read of the receive buffer; a byte the datagram did not fill reads as 0.\<close>

definition byte_at :: "8 word list \<Rightarrow> nat \<Rightarrow> 8 word" where
  "byte_at p i = (if i < length p then p ! i else 0)"

definition packetToCommandData :: "byte_order \<Rightarrow> 8 word list \<Rightarrow> commandData_t" where
  "packetToCommandData bo packet =
     \<lparr>c_packet_id = bytes_to_u32 bo (take 4 (drop 1 packet)),
      c_command_type = byte_at packet 5,
      c_reg_address = bytes_to_u32 bo (take 4 (drop 6 packet)),
      c_reg_value = bytes_to_u32 bo (take 4 (drop 10 packet))\<rparr>"

definition packetToReplyAck :: "byte_order \<Rightarrow> 8 word list \<Rightarrow> ackData_t" where
  "packetToReplyAck bo packet = \<lparr>a_packet_id = bytes_to_u32 bo (take 4 (drop 1 packet))\<rparr>"

subsection \<open>The queues of the scheduler\<close>

text \<open>
  A FreeRTOS queue is a FIFO of at most \<open>capacity\<close> items. The two tasks run
  concurrently; each task is modelled on its own, and what the other task does to a queue
  while this one waits on it is an input of the call:
  \<^item> \<open>xQueueSend q x wait freed\<close>: with room, \<open>x\<close> is appended at once. On a full queue the
    sender waits: \<open>freed = Some t\<close> says that the consumer takes the oldest item \<open>t\<close> ms
    after the call, and the send succeeds when that is within \<open>wait\<close>; otherwise the queue
    is still full when the wait is over and the call fails (the result \<open>False\<close>, which
    stands for every value other than \<^verbatim>\<open>pdPASS\<close>).
  \<^item> \<open>xQueueReceive q wait arrival\<close>: a waiting item is taken at once. On an empty queue the
    receiver waits: \<open>arrival = Some (t, y)\<close> says that the producer sends \<open>y\<close>, \<open>t\<close> ms after
    the call; it is received when that is within \<open>wait\<close>, and otherwise the call times out
    (\<open>None\<close>) and \<open>y\<close> is in the queue afterwards. An item that arrives while another one
    is taken is queued behind it.
\<close>

record 'a queue =
  items :: "'a list"
  capacity :: nat

definition xQueueCreate :: "nat \<Rightarrow> 'a queue" where
  "xQueueCreate uxQueueLength = \<lparr>items = [], capacity = uxQueueLength\<rparr>"

fun in_time :: "ticks \<Rightarrow> nat \<Rightarrow> bool" where
  "in_time (Ms m) t = (t < m)"
| "in_time portMAX_DELAY t = True"

definition xQueueSend :: "'a queue \<Rightarrow> 'a \<Rightarrow> ticks \<Rightarrow> nat option \<Rightarrow> bool \<times> 'a queue" where
  "xQueueSend q x xTicksToWait freed =
     (if length (items q) < capacity q then (True, q\<lparr>items := items q @ [x]\<rparr>)
      else (case freed of
              None \<Rightarrow> (False, q)
            | Some t \<Rightarrow>
                if in_time xTicksToWait t \<and> items q \<noteq> []
                then (True, q\<lparr>items := tl (items q) @ [x]\<rparr>)
                else (False, q)))"

definition arrive :: "'a queue \<Rightarrow> 'a \<Rightarrow> 'a queue" where
  "arrive q x = (if length (items q) < capacity q then q\<lparr>items := items q @ [x]\<rparr> else q)"

definition xQueueReceive :: "'a queue \<Rightarrow> ticks \<Rightarrow> (nat \<times> 'a) option \<Rightarrow> 'a option \<times> 'a queue" where
  "xQueueReceive q xTicksToWait arrival =
     (case items q of
        x # xs \<Rightarrow>
          (Some x, case arrival of None \<Rightarrow> q\<lparr>items := xs\<rparr> | Some (t, y) \<Rightarrow> arrive (q\<lparr>items := xs\<rparr>) y)
      | [] \<Rightarrow>
          (case arrival of
             None \<Rightarrow> (None, q)
           | Some (t, y) \<Rightarrow>
               if in_time xTicksToWait t \<and> 0 < capacity q then (Some y, q) else (None, arrive q y)))"

definition xQueueReset :: "'a queue \<Rightarrow> 'a queue" where
  "xQueueReset q = q\<lparr>items := []\<rparr>"

text \<open>
  Modelled from the spec: \<^verbatim>\<open>RoundBuf<T, 10>::put\<close>, whose implementation task2.c leaves
  out. Section 1 of the specification gives its contract: a push overwrites the oldest
  entry once the buffer is full.
\<close>

definition RoundBuf_put :: "'a \<Rightarrow> 'a list \<Rightarrow> 'a list" where
  "RoundBuf_put x buf = (if length buf < 10 then buf @ [x] else tl buf @ [x])"

subsection \<open>The state of the program and what it exchanges with its environment\<close>

text \<open>
  \<open>trace\<close> records, in order, what the two tasks exchange with their collaborators:
  \<^item> \<open>SendTo pkt ok\<close>: \<^verbatim>\<open>FreeRTOS_sendto(packet, packet_size)\<close> was called with the bytes
    \<open>pkt\<close>, and the transport did (\<open>ok\<close>) or did not write them;
  \<^item> \<open>ReplyAckWait r\<close>: a call of \<^verbatim>\<open>xQueueReceive(replyAckQueue, ...)\<close> in the retry loop
    returned: \<open>None\<close> after the timeout, \<open>Some a\<close> with the record it dequeued. This
    is an input of the program, recorded where it is read.

  The source has three places where a comment asks for a signal ("Make some signal for
  fail to adding message to queue", twice, and "There is no REPLY_ACK from master. Make
  some signal.") and no statement follows the comment: the program does nothing there,
  and so does the model.

  The other fields are the globals of task2.c and the locals of \<^verbatim>\<open>commandsProcessTask\<close>
  that live across its iterations: \<^verbatim>\<open>responseData\<close> is declared outside of the loop, and
  the branch for an unknown command type does not assign \<^verbatim>\<open>reg_value\<close>. \<open>registers\<close> is
  the state behind \<^verbatim>\<open>reg_read\<close> and \<^verbatim>\<open>reg_write\<close>.
\<close>

datatype event =
  SendTo "8 word list" bool
| ReplyAckWait "ackData_t option"

record 'b state =
  commandDataQueue :: "commandData_t queue"
  replyAckQueue :: "ackData_t queue"
  commandDataRingBuf :: "commandData_t list"
  responseDataRingBuf :: "responseData_t list"
  responseData :: responseData_t
  registers :: 'b
  udpSendMutex :: bool
  trace :: "event list"

text \<open>
  \<^verbatim>\<open>reg_read\<close> and \<^verbatim>\<open>reg_write\<close> are not part of the source: they are parameters.
  \<^verbatim>\<open>reg_read(address, &value)\<close> returns the status and may write through the pointer, so
  it is given the old content of \<^verbatim>\<open>value\<close> and returns the new one.
\<close>

record 'b platform =
  reg_read :: "'b \<Rightarrow> 32 word \<Rightarrow> 32 word \<Rightarrow> 8 word \<times> 32 word \<times> 'b"
  reg_write :: "'b \<Rightarrow> 32 word \<Rightarrow> 32 word \<Rightarrow> 8 word \<times> 'b"
  wire_order :: byte_order

subsection \<open>updInputDataParseTask\<close>

text \<open>
  One received datagram: the results of \<^verbatim>\<open>FreeRTOS_recvfrom\<close> and of
  \<^verbatim>\<open>getPacketFromUdp\<close> (neither is part of the source), the content of the buffer
  \<^verbatim>\<open>packet\<close>, and what the consumer of the target queue does while the task waits in
  \<^verbatim>\<open>xQueueSend\<close>.
\<close>

record datagram =
  recv_ok :: bool
  packet_ok :: bool
  packet :: "8 word list"
  slot_freed :: "nat option"

definition updInputDataParseTask_init :: "'b state \<Rightarrow> 'b state" where
  "updInputDataParseTask_init s =
     s\<lparr>commandDataQueue := xQueueCreate 10, replyAckQueue := xQueueCreate 1\<rparr>"

text \<open>
  The body of \<^verbatim>\<open>while(1)\<close>. When \<^verbatim>\<open>xQueueSend\<close> fails, the branch holds a comment and
  \<^verbatim>\<open>continue\<close>, which ends the iteration as its normal end does: the state is left as
  it is.
\<close>

definition updInputDataParseTask_step :: "byte_order \<Rightarrow> datagram \<Rightarrow> 'b state \<Rightarrow> 'b state" where
  "updInputDataParseTask_step bo d s =
     (if recv_ok d then
        if packet_ok d then
          if byte_at (packet d) 0 = PACKET_TYPE_COMMAND then
            (let commandData = packetToCommandData bo (packet d);
                 (sent, q) = xQueueSend (commandDataQueue s) commandData
                               (pdMS_TO_TICKS TIMEOUT_SEND_COMMAND_MS) (slot_freed d)
             in if \<not> sent then s
                else s\<lparr>commandDataQueue := q\<rparr>)
          else if byte_at (packet d) 0 = PACKET_TYPE_REPLY_ACK then
            (let replyAckData = packetToReplyAck bo (packet d);
                 (sent, q) = xQueueSend (replyAckQueue s) replyAckData
                               (pdMS_TO_TICKS TIMEOUT_SEND_REPLY_ACK_MS) (slot_freed d)
             in if \<not> sent then s
                else s\<lparr>replyAckQueue := q\<rparr>)
          else s
        else s
      else s)"

text \<open>The task on a finite prefix of the datagrams it receives.\<close>

definition updInputDataParseTask :: "byte_order \<Rightarrow> datagram list \<Rightarrow> 'b state \<Rightarrow> 'b state" where
  "updInputDataParseTask bo ds s =
     foldl (\<lambda>s d. updInputDataParseTask_step bo d s) (updInputDataParseTask_init s) ds"

subsection \<open>udpSendBlocked\<close>

text \<open>
  \<^verbatim>\<open>FreeRTOS_sendto\<close> returns the number of bytes it wrote, 0 when it wrote none; \<open>ok\<close> is
  the transport's side of the call. \<^verbatim>\<open>udpSendBlocked\<close> is \<^verbatim>\<open>void\<close> and drops that
  result. It is the only user of \<^verbatim>\<open>udpSendMutex\<close> and is called from one task only, so
  taking the mutex never waits.
\<close>

definition FreeRTOS_sendto :: "bool \<Rightarrow> 8 word list \<Rightarrow> 'b state \<Rightarrow> int \<times> 'b state" where
  "FreeRTOS_sendto ok pkt s =
     (if ok then int (length pkt) else 0, s\<lparr>trace := trace s @ [SendTo pkt ok]\<rparr>)"

definition udpSendBlocked :: "byte_order \<Rightarrow> 8 word \<Rightarrow> payload \<Rightarrow> bool \<Rightarrow> 'b state \<Rightarrow> 'b state" where
  "udpSendBlocked bo packet_type data ok s =
     (let pkt = makePacket bo packet_type data;
          s1 = s\<lparr>udpSendMutex := True\<rparr>;
          (n, s2) = FreeRTOS_sendto ok pkt s1
      in s2\<lparr>udpSendMutex := False\<rparr>)"

subsection \<open>commandsProcessTask\<close>

text \<open>
  The environment of one command cycle: whether the transport writes the \<open>n\<close>-th packet
  of the cycle (0 is the REQ_ACK, \<open>i + 1\<close> the response of attempt \<open>i\<close>), and the REPLY_ACK
  record, if any, that the receiving task queues during attempt \<open>i\<close>, with its delay in
  ms from the start of the wait.
\<close>

record cycle_env =
  sendto_ok :: "nat \<Rightarrow> bool"
  reply_ack :: "nat \<Rightarrow> (nat \<times> ackData_t) option"

text \<open>The lines under "make response".\<close>

definition makeResponse :: "'b platform \<Rightarrow> commandData_t \<Rightarrow> 'b state \<Rightarrow> 'b state" where
  "makeResponse P commandData s =
     (let rd = (responseData s)\<lparr>r_packet_id := c_packet_id commandData,
                                 r_reg_address := c_reg_address commandData\<rparr>
      in if c_command_type commandData = COMMAND_TYPE_READ_REGISTER then
           (case reg_read P (registers s) (c_reg_address commandData) (r_reg_value rd) of
              (status, v, regs) \<Rightarrow>
                s\<lparr>responseData := rd\<lparr>r_reg_value := v, r_response_status := status\<rparr>,
                  registers := regs\<rparr>)
         else if c_command_type commandData = COMMAND_TYPE_WRITE_REGISTER then
           (case reg_write P (registers s) (c_reg_address commandData) (c_reg_value commandData) of
              (status, regs) \<Rightarrow>
                s\<lparr>responseData := rd\<lparr>r_reg_value := c_reg_value commandData,
                                       r_response_status := status\<rparr>,
                  registers := regs\<rparr>)
         else s\<lparr>responseData := rd\<lparr>r_response_status := RESPONSE_FAULT\<rparr>\<rparr>)"

text \<open>
  The first three statements of the body of the \<^verbatim>\<open>for\<close> loop: store the response, send
  it, wait for a REPLY_ACK. The result is what \<^verbatim>\<open>xQueueReceive\<close> returned.
\<close>

definition responseAttempt ::
  "'b platform \<Rightarrow> cycle_env \<Rightarrow> 8 word \<Rightarrow> 'b state \<Rightarrow> ackData_t option \<times> 'b state" where
  "responseAttempt P E attempt s =
     (let s1 = s\<lparr>responseDataRingBuf := RoundBuf_put (responseData s) (responseDataRingBuf s)\<rparr>;
          s2 = udpSendBlocked (wire_order P) PACKET_TYPE_RESPONSE (ResponseData (responseData s1))
                 (sendto_ok E (Suc (unat attempt))) s1;
          (r, q) = xQueueReceive (replyAckQueue s2) (pdMS_TO_TICKS TIMEOUT_RECEIVE_REPLY_ACK_MS)
                     (reply_ack E (unat attempt))
      in (r, s2\<lparr>replyAckQueue := q, trace := trace s2 @ [ReplyAckWait r]\<rparr>))"

text \<open>
  The \<^verbatim>\<open>for\<close> loop from the value \<open>attempt\<close> of its counter. It returns the counter with
  the state: \<^verbatim>\<open>break\<close> leaves the counter as it is, the end of the loop leaves it at
  \<^verbatim>\<open>SEND_RESPONSE_ATTEMPTS\<close>.
\<close>

function sendResponseLoop ::
  "'b platform \<Rightarrow> cycle_env \<Rightarrow> commandData_t \<Rightarrow> 8 word \<Rightarrow> 'b state \<Rightarrow> 8 word \<times> 'b state" where
  "sendResponseLoop P E commandData attempt s =
     (if attempt < SEND_RESPONSE_ATTEMPTS then
        (case responseAttempt P E attempt s of
           (Some replyAckData, s') \<Rightarrow>
             if a_packet_id replyAckData = c_packet_id commandData then (attempt, s')
             else sendResponseLoop P E commandData (attempt + 1) s'
         | (None, s') \<Rightarrow> sendResponseLoop P E commandData (attempt + 1) s')
      else (attempt, s))"
  by pat_completeness auto

lemma attempt_succ:
  fixes attempt :: "8 word"
  assumes "attempt < SEND_RESPONSE_ATTEMPTS"
  shows "unat (attempt + 1) = Suc (unat attempt)" and "unat attempt < 3"
proof -
  show lt: "unat attempt < 3"
    using assms by (simp add: SEND_RESPONSE_ATTEMPTS_def word_less_nat_alt)
  then show "unat (attempt + 1) = Suc (unat attempt)"
    by (simp add: unat_word_ariths)
qed

lemma attempt_measure:
  fixes attempt :: "8 word"
  assumes "attempt < SEND_RESPONSE_ATTEMPTS"
  shows "3 - unat (attempt + 1) < 3 - unat attempt"
  using attempt_succ [OF assms] by simp

termination sendResponseLoop
  by (relation "measure (\<lambda>(P, E, c, attempt, s). 3 - unat attempt)")
     (auto simp: attempt_measure)

declare sendResponseLoop.simps [simp del]

text \<open>
  The body of \<^verbatim>\<open>if(xQueueReceive(commandDataQueue, ...) == pdPASS)\<close>. The body of its last
  \<^verbatim>\<open>if(attempt == SEND_RESPONSE_ATTEMPTS)\<close> holds two comments and no statement.
\<close>

definition commandCycle :: "'b platform \<Rightarrow> cycle_env \<Rightarrow> commandData_t \<Rightarrow> 'b state \<Rightarrow> 'b state" where
  "commandCycle P E commandData s =
     (let s1 = s\<lparr>commandDataRingBuf := RoundBuf_put commandData (commandDataRingBuf s)\<rparr>;
          reqAckData = \<lparr>a_packet_id = c_packet_id commandData\<rparr>;
          s2 = udpSendBlocked (wire_order P) PACKET_TYPE_REQ_ACK (AckData reqAckData) (sendto_ok E 0) s1;
          s3 = makeResponse P commandData s2;
          s4 = s3\<lparr>replyAckQueue := xQueueReset (replyAckQueue s3)\<rparr>;
          (attempt, s5) = sendResponseLoop P E commandData 0 s4
      in if attempt = SEND_RESPONSE_ATTEMPTS then s5 else s5)"

text \<open>
  One iteration of \<^verbatim>\<open>while(1)\<close>; its environment is the command, if any, that arrives
  while the task waits on the empty queue, and the environment of the cycle. On an
  empty queue with no arrival the task stays in \<^verbatim>\<open>xQueueReceive\<close>, and the step changes
  nothing.
\<close>

definition commandsProcessTask_step ::
  "'b platform \<Rightarrow> (nat \<times> commandData_t) option \<times> cycle_env \<Rightarrow> 'b state \<Rightarrow> 'b state" where
  "commandsProcessTask_step P env s =
     (case xQueueReceive (commandDataQueue s) TIMEOUT_RECEIVE_COMMAND_MS (fst env) of
        (Some commandData, q) \<Rightarrow> commandCycle P (snd env) commandData (s\<lparr>commandDataQueue := q\<rparr>)
      | (None, q) \<Rightarrow> s\<lparr>commandDataQueue := q\<rparr>)"

subsection \<open>Notions for stating the properties\<close>

text \<open>What one command cycle adds to the trace, and the packets among it.\<close>

definition cycleEvents :: "'b platform \<Rightarrow> cycle_env \<Rightarrow> commandData_t \<Rightarrow> 'b state \<Rightarrow> event list" where
  "cycleEvents P E commandData s = drop (length (trace s)) (trace (commandCycle P E commandData s))"

fun frames_out :: "event list \<Rightarrow> 8 word list list" where
  "frames_out [] = []"
| "frames_out (SendTo pkt ok # es) = pkt # frames_out es"
| "frames_out (e # es) = frames_out es"

text \<open>
  The test of the loop on a result of \<^verbatim>\<open>xQueueReceive\<close>, the two kinds of send events of
  a cycle, the state in which the retry loop starts, and the state and the result of
  attempt \<open>n\<close> when no earlier attempt ended the loop.
\<close>

definition acked :: "commandData_t \<Rightarrow> ackData_t option \<Rightarrow> bool" where
  "acked c r = (case r of None \<Rightarrow> False | Some a \<Rightarrow> a_packet_id a = c_packet_id c)"

definition reqAckEvent :: "'b platform \<Rightarrow> cycle_env \<Rightarrow> commandData_t \<Rightarrow> event" where
  "reqAckEvent P E c =
     SendTo (makePacket (wire_order P) PACKET_TYPE_REQ_ACK (AckData \<lparr>a_packet_id = c_packet_id c\<rparr>))
       (sendto_ok E 0)"

definition responseEvent :: "'b platform \<Rightarrow> cycle_env \<Rightarrow> 'b state \<Rightarrow> nat \<Rightarrow> event" where
  "responseEvent P E s i =
     SendTo (makePacket (wire_order P) PACKET_TYPE_RESPONSE (ResponseData (responseData s)))
       (sendto_ok E i)"

definition resetState :: "'b platform \<Rightarrow> cycle_env \<Rightarrow> commandData_t \<Rightarrow> 'b state \<Rightarrow> 'b state" where
  "resetState P E c s =
     (let s2 = udpSendBlocked (wire_order P) PACKET_TYPE_REQ_ACK
                 (AckData \<lparr>a_packet_id = c_packet_id c\<rparr>) (sendto_ok E 0)
                 (s\<lparr>commandDataRingBuf := RoundBuf_put c (commandDataRingBuf s)\<rparr>);
          s3 = makeResponse P c s2
      in s3\<lparr>replyAckQueue := xQueueReset (replyAckQueue s3)\<rparr>)"

primrec stateBefore :: "'b platform \<Rightarrow> cycle_env \<Rightarrow> nat \<Rightarrow> 'b state \<Rightarrow> 'b state" where
  "stateBefore P E 0 s = s"
| "stateBefore P E (Suc n) s = snd (responseAttempt P E (of_nat n) (stateBefore P E n s))"

definition outcome :: "'b platform \<Rightarrow> cycle_env \<Rightarrow> nat \<Rightarrow> 'b state \<Rightarrow> ackData_t option" where
  "outcome P E n s = fst (responseAttempt P E (of_nat n) (stateBefore P E n s))"

text \<open>
  The condition of the last \<^verbatim>\<open>if\<close> of the cycle: the loop has ended with
  \<^verbatim>\<open>attempt == SEND_RESPONSE_ATTEMPTS\<close>, that is, without \<^verbatim>\<open>break\<close>.
\<close>

definition exhausted :: "'b platform \<Rightarrow> cycle_env \<Rightarrow> commandData_t \<Rightarrow> 'b state \<Rightarrow> bool" where
  "exhausted P E c s =
     (fst (sendResponseLoop P E c 0 (resetState P E c s)) = SEND_RESPONSE_ATTEMPTS)"

subsection \<open>The scenarios of the specification\<close>

text \<open>
  A backend with one register, 0x1000, that holds 0xABCD; the command of scenarios A to
  C (id 42, read of 0x1000), a write and a command of an unknown type; and three
  environments: the REPLY_ACK 42 arrives 30 ms after the first response (A), no
  REPLY_ACK arrives (B), the REPLY_ACK 41 arrives during attempt 1 and the REPLY_ACK 42
  during attempt 2 (C). The datagrams are valid packets of three types, received while
  nothing is taken from the queues.
\<close>

definition scenario_platform :: "(32 word \<times> 32 word) list platform" where
  "scenario_platform =
     \<lparr>reg_read = (\<lambda>regs addr old. case map_of regs addr of
                     None \<Rightarrow> (RESPONSE_FAULT, old, regs)
                   | Some v \<Rightarrow> (RESPONSE_OK, v, regs)),
      reg_write = (\<lambda>regs addr v. case map_of regs addr of
                     None \<Rightarrow> (RESPONSE_FAULT, regs)
                   | Some _ \<Rightarrow> (RESPONSE_OK, (addr, v) # regs)),
      wire_order = BigEndian\<rparr>"

definition scenario_state :: "(32 word \<times> 32 word) list state" where
  "scenario_state =
     \<lparr>commandDataQueue = xQueueCreate 10, replyAckQueue = xQueueCreate 1,
      commandDataRingBuf = [], responseDataRingBuf = [],
      responseData = \<lparr>r_packet_id = 0, r_response_status = 0, r_reg_address = 0, r_reg_value = 0\<rparr>,
      registers = [(0x1000, 0xABCD)], udpSendMutex = False, trace = []\<rparr>"

definition read_command :: commandData_t where
  "read_command =
     \<lparr>c_packet_id = 42, c_command_type = COMMAND_TYPE_READ_REGISTER,
      c_reg_address = 0x1000, c_reg_value = 0\<rparr>"

definition write_command :: commandData_t where
  "write_command =
     \<lparr>c_packet_id = 43, c_command_type = COMMAND_TYPE_WRITE_REGISTER,
      c_reg_address = 0x1000, c_reg_value = 7\<rparr>"

definition unknown_command :: commandData_t where
  "unknown_command =
     \<lparr>c_packet_id = 44, c_command_type = 9, c_reg_address = 0x1000, c_reg_value = 7\<rparr>"

definition env_A :: cycle_env where
  "env_A = \<lparr>sendto_ok = (\<lambda>n. True),
            reply_ack = (\<lambda>i. if i = 0 then Some (30, \<lparr>a_packet_id = 42\<rparr>) else None)\<rparr>"

definition env_B :: cycle_env where
  "env_B = \<lparr>sendto_ok = (\<lambda>n. True), reply_ack = (\<lambda>i. None)\<rparr>"

definition env_C :: cycle_env where
  "env_C = \<lparr>sendto_ok = (\<lambda>n. True),
            reply_ack = (\<lambda>i. if i = 0 then Some (30, \<lparr>a_packet_id = 41\<rparr>)
                              else if i = 1 then Some (20, \<lparr>a_packet_id = 42\<rparr>) else None)\<rparr>"

definition req_ack_42 :: "8 word list" where
  "req_ack_42 = [3, 0, 0, 0, 42]"

definition response_42 :: "8 word list" where
  "response_42 = [2, 0, 0, 0, 42, 1, 0, 0, 16, 0, 0, 0, 171, 205]"

definition command_datagram :: datagram where
  "command_datagram =
     \<lparr>recv_ok = True, packet_ok = True,
      packet = encode BigEndian (CommandFrame read_command), slot_freed = None\<rparr>"

definition reply_ack_datagram :: datagram where
  "reply_ack_datagram =
     \<lparr>recv_ok = True, packet_ok = True,
      packet = encode BigEndian (ReplyAckFrame \<lparr>a_packet_id = 42\<rparr>), slot_freed = None\<rparr>"

definition response_datagram :: datagram where
  "response_datagram =
     \<lparr>recv_ok = True, packet_ok = True,
      packet = encode BigEndian (ResponseFrame (responseData scenario_state)), slot_freed = None\<rparr>"

section \<open>Properties of findUnique\<close>

lemma foldr_xor_remove1:
  fixes a :: "32 word list"
  shows "x \<in> set a \<Longrightarrow> foldr (XOR) a 0 = x XOR foldr (XOR) (remove1 x a) 0"
  by (induction a) (auto simp: ac_simps)

lemma odd_count_member: "odd (count_list a x) \<Longrightarrow> x \<in> set a"
  by (metis count_list_0_iff even_zero)

text \<open>A list in which every value occurs an even number of times cancels to 0.\<close>

lemma foldr_xor_even:
  fixes a :: "32 word list"
  shows "(\<forall>y. even (count_list a y)) \<Longrightarrow> foldr (XOR) a 0 = 0"
proof (induction "length a" arbitrary: a rule: less_induct)
  case less
  show ?case
  proof (cases a)
    case Nil
    then show ?thesis by simp
  next
    case (Cons x a')
    from less.prems have "even (count_list a x)" by blast
    then have odd': "odd (count_list a' x)" using Cons by simp
    then have mem: "x \<in> set a'" by (rule odd_count_member)
    have evs: "\<forall>y. even (count_list (remove1 x a') y)"
    proof
      fix y
      have "even (count_list a y)" using less.prems by blast
      then show "even (count_list (remove1 x a') y)"
        using Cons odd' by (auto simp: count_list_remove1)
    qed
    have "length (remove1 x a') < length a"
      using mem Cons by (simp add: length_remove1)
    then have "foldr (XOR) (remove1 x a') 0 = 0"
      using less.hyps evs by blast
    then show ?thesis
      using Cons foldr_xor_remove1 [OF mem] by simp
  qed
qed

lemma foldr_xor_unique:
  fixes a :: "32 word list"
  assumes "odd (count_list a x)" and "\<forall>y. y \<noteq> x \<longrightarrow> even (count_list a y)"
  shows "foldr (XOR) a 0 = x"
proof -
  have mem: "x \<in> set a" using assms(1) by (rule odd_count_member)
  have "\<forall>y. even (count_list (remove1 x a) y)"
    using assms by (auto simp: count_list_remove1)
  then have "foldr (XOR) (remove1 x a) 0 = 0" by (rule foldr_xor_even)
  then show ?thesis using foldr_xor_remove1 [OF mem] by simp
qed

text \<open>The loop invariant: from index \<open>i\<close> on, the loop adds the XOR of the rest of the array.\<close>

lemma findUnique_loop_drop:
  "0 \<le> sint i \<Longrightarrow> sint i \<le> sint n \<Longrightarrow> sint n = int (length a) \<Longrightarrow>
   findUnique_loop a n i r = Some (r XOR foldr (XOR) (drop (nat (sint i)) a) 0)"
proof (induction a n i r rule: findUnique_loop.induct)
  case (1 a n i r)
  show ?case
  proof (cases "i <s n")
    case True
    then have lt: "sint i < sint n" by (simp add: word_sless_alt)
    have suc: "sint (i + 1) = sint i + 1" using True by (rule sint_succ_below)
    have inb: "nat (sint i) < length a" using lt "1.prems" by simp
    have "findUnique_loop a n (i + 1) (r XOR a ! nat (sint i)) =
          Some ((r XOR a ! nat (sint i)) XOR foldr (XOR) (drop (nat (sint (i + 1))) a) 0)"
      using "1.IH" [OF True] "1.prems" lt inb suc by simp
    moreover have "drop (nat (sint i)) a = a ! nat (sint i) # drop (nat (sint (i + 1))) a"
      using inb "1.prems"(1) suc by (simp add: Cons_nth_drop_Suc nat_add_distrib)
    ultimately show ?thesis
      using True inb "1.prems"(1) by (subst findUnique_loop.simps) (simp add: ac_simps)
  next
    case False
    then have "sint i = sint n" using "1.prems" by (simp add: word_sless_alt)
    then show ?thesis
      using False "1.prems" by (subst findUnique_loop.simps) simp
  qed
qed

text \<open>
  C10. For an array \<open>a\<close> of \<open>n \<ge> 0\<close> elements, \<open>findUnique a n\<close> returns the XOR of all
  elements of \<open>a\<close>. So it returns 0 for \<open>n = 0\<close>, and when one value \<open>x\<close> occurs an odd
  number of times in \<open>a\<close> and every other value an even number of times, it returns \<open>x\<close>.
\<close>

theorem findUnique_returns_xor:
  assumes "sint n = int (length a)"
  shows "findUnique a n = Some (foldr (XOR) a 0)
       \<and> (n = 0 \<longrightarrow> findUnique a n = Some 0)
       \<and> (\<forall>x. odd (count_list a x) \<and> (\<forall>y. y \<noteq> x \<longrightarrow> even (count_list a y))
              \<longrightarrow> findUnique a n = Some x)"
proof -
  have xor: "findUnique a n = Some (foldr (XOR) a 0)"
    unfolding findUnique_def using findUnique_loop_drop [of 0 n a 0] assms by simp
  have zero: "foldr (XOR) a 0 = 0" if "n = 0"
    using that assms by simp
  have uniq: "foldr (XOR) a 0 = x"
    if "odd (count_list a x) \<and> (\<forall>y. y \<noteq> x \<longrightarrow> even (count_list a y))" for x
    using that foldr_xor_unique by blast
  show ?thesis
  proof (intro conjI impI allI)
    show "findUnique a n = Some (foldr (XOR) a 0)" by (rule xor)
    show "findUnique a n = Some 0" if "n = 0" using xor zero [OF that] by simp
    show "findUnique a n = Some x"
      if "odd (count_list a x) \<and> (\<forall>y. y \<noteq> x \<longrightarrow> even (count_list a y))" for x
      using xor uniq [OF that] by simp
  qed
qed

text \<open>
  The array of \<^verbatim>\<open>main\<close>: 2, 4, 6 and 8 occur twice and 10 once, so the result is 10;
  and the empty array gives 0.
\<close>

theorem findUnique_returns_xor_witness:
  "sint (9 :: 32 word) = int (length [2, 4, 6, 8, 10, 6, 4, 2, 8 :: 32 word])
   \<and> odd (count_list [2, 4, 6, 8, 10, 6, 4, 2, 8 :: 32 word] 10)
   \<and> (\<forall>y. y = 10 \<or> even (count_list [2, 4, 6, 8, 10, 6, 4, 2, 8 :: 32 word] y))
   \<and> findUnique [2, 4, 6, 8, 10, 6, 4, 2, 8] 9 = Some 10
   \<and> findUnique [] 0 = Some 0"
proof -
  have len: "sint (9 :: 32 word) = int (length [2, 4, 6, 8, 10, 6, 4, 2, 8 :: 32 word])"
    by simp
  have cnt: "odd (count_list [2, 4, 6, 8, 10, 6, 4, 2, 8 :: 32 word] 10)"
    by simp
  have others: "\<forall>y. y = 10 \<or> even (count_list [2, 4, 6, 8, 10, 6, 4, 2, 8 :: 32 word] y)"
    by simp
  have "findUnique [2, 4, 6, 8, 10, 6, 4, 2, 8] 9 = Some 10"
    using findUnique_returns_xor [OF len] cnt others by blast
  moreover have "findUnique [] 0 = Some 0"
    using findUnique_returns_xor [of 0 "[]"] by simp
  ultimately show ?thesis using len cnt others by blast
qed

section \<open>Properties of the command cycle\<close>

subsection \<open>The retry loop, unfolded\<close>

lemma udpSendBlocked_eq:
  "udpSendBlocked bo packet_type data ok s =
     s\<lparr>udpSendMutex := False, trace := trace s @ [SendTo (makePacket bo packet_type data) ok]\<rparr>"
  by (simp add: udpSendBlocked_def FreeRTOS_sendto_def)

lemma responseAttempt_trace:
  "trace (snd (responseAttempt P E attempt s)) =
     trace s @ [responseEvent P E s (Suc (unat attempt)), ReplyAckWait (fst (responseAttempt P E attempt s))]"
  by (simp add: responseAttempt_def udpSendBlocked_eq responseEvent_def split: prod.split)

lemma responseAttempt_keeps:
  "responseData (snd (responseAttempt P E attempt s)) = responseData s"
  "commandDataQueue (snd (responseAttempt P E attempt s)) = commandDataQueue s"
  "registers (snd (responseAttempt P E attempt s)) = registers s"
  by (simp_all add: responseAttempt_def udpSendBlocked_eq split: prod.split)

lemma responseEvent_cong:
  "responseData s' = responseData s \<Longrightarrow> responseEvent P E s' i = responseEvent P E s i"
  by (simp add: responseEvent_def)

lemma sendResponseLoop_step:
  "attempt < SEND_RESPONSE_ATTEMPTS \<Longrightarrow>
   sendResponseLoop P E c attempt s =
     (if acked c (fst (responseAttempt P E attempt s))
      then (attempt, snd (responseAttempt P E attempt s))
      else sendResponseLoop P E c (attempt + 1) (snd (responseAttempt P E attempt s)))"
  by (subst sendResponseLoop.simps) (simp add: acked_def split: prod.split option.split)

lemma sendResponseLoop_stop:
  "\<not> attempt < SEND_RESPONSE_ATTEMPTS \<Longrightarrow> sendResponseLoop P E c attempt s = (attempt, s)"
  by (subst sendResponseLoop.simps) simp

text \<open>The four runs of the retry loop.\<close>

lemma sendResponseLoop_shape:
  fixes P :: "'b platform" and s :: "'b state" and E :: cycle_env and c :: commandData_t
  defines "L \<equiv> sendResponseLoop P E c 0 s"
  defines "R \<equiv> responseEvent P E s"
  defines "o0 \<equiv> outcome P E 0 s" and "o1 \<equiv> outcome P E 1 s" and "o2 \<equiv> outcome P E 2 s"
  shows
    "(acked c o0 \<and> fst L = 0 \<and> trace (snd L) = trace s @ [R 1, ReplyAckWait o0])
  \<or> (\<not> acked c o0 \<and> acked c o1 \<and> fst L = 1
      \<and> trace (snd L) = trace s @ [R 1, ReplyAckWait o0, R 2, ReplyAckWait o1])
  \<or> (\<not> acked c o0 \<and> \<not> acked c o1 \<and> acked c o2 \<and> fst L = 2
      \<and> trace (snd L) = trace s @ [R 1, ReplyAckWait o0, R 2, ReplyAckWait o1, R 3, ReplyAckWait o2])
  \<or> (\<not> acked c o0 \<and> \<not> acked c o1 \<and> \<not> acked c o2 \<and> fst L = 3
      \<and> trace (snd L) = trace s @ [R 1, ReplyAckWait o0, R 2, ReplyAckWait o1, R 3, ReplyAckWait o2])"
    and "responseData (snd L) = responseData s"
    and "commandDataQueue (snd L) = commandDataQueue s"
    and "registers (snd L) = registers s"
proof -
  define a0 where "a0 = responseAttempt P E 0 s"
  define a1 where "a1 = responseAttempt P E 1 (snd a0)"
  define a2 where "a2 = responseAttempt P E 2 (snd a1)"
  have os: "o0 = fst a0" "o1 = fst a1" "o2 = fst a2"
    by (simp_all add: o0_def o1_def o2_def outcome_def a0_def a1_def a2_def
          numeral_2_eq_2)
  have lt: "(0 :: 8 word) < SEND_RESPONSE_ATTEMPTS" "(1 :: 8 word) < SEND_RESPONSE_ATTEMPTS"
    "(2 :: 8 word) < SEND_RESPONSE_ATTEMPTS" "\<not> (3 :: 8 word) < SEND_RESPONSE_ATTEMPTS"
    by (simp_all add: SEND_RESPONSE_ATTEMPTS_def)
  have t0: "trace (snd a0) = trace s @ [R 1, ReplyAckWait (fst a0)]"
    unfolding a0_def R_def using responseAttempt_trace [of P E 0 s] by simp
  have r0: "responseData (snd a0) = responseData s"
    unfolding a0_def by (rule responseAttempt_keeps)
  have t1: "trace (snd a1) = trace (snd a0) @ [R 2, ReplyAckWait (fst a1)]"
    unfolding a1_def R_def using responseAttempt_trace [of P E 1 "snd a0"] responseEvent_cong [OF r0]
    by (simp add: numeral_2_eq_2)
  have r1: "responseData (snd a1) = responseData s"
    unfolding a1_def using r0 by (simp add: responseAttempt_keeps)
  have t2: "trace (snd a2) = trace (snd a1) @ [R 3, ReplyAckWait (fst a2)]"
    unfolding a2_def R_def using responseAttempt_trace [of P E 2 "snd a1"] responseEvent_cong [OF r1]
    by (simp add: numeral_3_eq_3)
  have L0: "L = (if acked c (fst a0) then (0, snd a0)
                 else if acked c (fst a1) then (1, snd a1)
                 else if acked c (fst a2) then (2, snd a2) else (3, snd a2))"
    unfolding L_def a0_def a1_def a2_def
    using sendResponseLoop_step [OF lt(1), of P E c s]
      sendResponseLoop_step [OF lt(2), of P E c "snd (responseAttempt P E 0 s)"]
      sendResponseLoop_step [OF lt(3), of P E c "snd (responseAttempt P E 1 (snd (responseAttempt P E 0 s)))"]
      sendResponseLoop_stop [OF lt(4), of P E c]
    by simp
  show "(acked c o0 \<and> fst L = 0 \<and> trace (snd L) = trace s @ [R 1, ReplyAckWait o0])
  \<or> (\<not> acked c o0 \<and> acked c o1 \<and> fst L = 1
      \<and> trace (snd L) = trace s @ [R 1, ReplyAckWait o0, R 2, ReplyAckWait o1])
  \<or> (\<not> acked c o0 \<and> \<not> acked c o1 \<and> acked c o2 \<and> fst L = 2
      \<and> trace (snd L) = trace s @ [R 1, ReplyAckWait o0, R 2, ReplyAckWait o1, R 3, ReplyAckWait o2])
  \<or> (\<not> acked c o0 \<and> \<not> acked c o1 \<and> \<not> acked c o2 \<and> fst L = 3
      \<and> trace (snd L) = trace s @ [R 1, ReplyAckWait o0, R 2, ReplyAckWait o1, R 3, ReplyAckWait o2])"
    unfolding os using L0 t0 t1 t2 by simp
  show "responseData (snd L) = responseData s"
    using L0 r0 r1 by (simp add: a2_def responseAttempt_keeps)
  show "commandDataQueue (snd L) = commandDataQueue s"
    using L0 by (simp add: a0_def a1_def a2_def responseAttempt_keeps)
  show "registers (snd L) = registers s"
    using L0 by (simp add: a0_def a1_def a2_def responseAttempt_keeps)
qed

lemma makeResponse_keeps:
  "trace (makeResponse P c s) = trace s"
  "commandDataQueue (makeResponse P c s) = commandDataQueue s"
  "replyAckQueue (makeResponse P c s) = replyAckQueue s"
  by (simp_all add: makeResponse_def Let_def split: prod.split)

lemma makeResponse_cong:
  "responseData s' = responseData s \<Longrightarrow> registers s' = registers s \<Longrightarrow>
   responseData (makeResponse P c s') = responseData (makeResponse P c s)"
  by (simp add: makeResponse_def Let_def split: prod.split)

lemma commandCycle_unfold:
  "commandCycle P E c s = snd (sendResponseLoop P E c 0 (resetState P E c s))"
  unfolding commandCycle_def resetState_def Let_def
  by (simp only: case_prod_beta if_cancel)

lemma resetState_fields:
  "trace (resetState P E c s) = trace s @ [reqAckEvent P E c]"
  "responseData (resetState P E c s) = responseData (makeResponse P c s)"
  "commandDataQueue (resetState P E c s) = commandDataQueue s"
  "items (replyAckQueue (resetState P E c s)) = []"
proof -
  define s2 where "s2 = udpSendBlocked (wire_order P) PACKET_TYPE_REQ_ACK
      (AckData \<lparr>a_packet_id = c_packet_id c\<rparr>) (sendto_ok E 0)
      (s\<lparr>commandDataRingBuf := RoundBuf_put c (commandDataRingBuf s)\<rparr>)"
  have s2_fields: "trace s2 = trace s @ [reqAckEvent P E c]" "responseData s2 = responseData s"
    "registers s2 = registers s" "commandDataQueue s2 = commandDataQueue s"
    by (simp_all add: s2_def udpSendBlocked_eq reqAckEvent_def)
  have rs: "resetState P E c s =
      (makeResponse P c s2)\<lparr>replyAckQueue := xQueueReset (replyAckQueue (makeResponse P c s2))\<rparr>"
    by (simp add: resetState_def s2_def Let_def)
  show "trace (resetState P E c s) = trace s @ [reqAckEvent P E c]"
    by (simp add: rs makeResponse_keeps s2_fields)
  have "responseData (makeResponse P c s2) = responseData (makeResponse P c s)"
    by (rule makeResponse_cong) (simp_all add: s2_fields)
  then show "responseData (resetState P E c s) = responseData (makeResponse P c s)"
    by (simp add: rs)
  show "commandDataQueue (resetState P E c s) = commandDataQueue s"
    by (simp add: rs makeResponse_keeps s2_fields)
  show "items (replyAckQueue (resetState P E c s)) = []"
    by (simp add: rs xQueueReset_def)
qed

lemma commandCycle_shape:
  fixes P :: "'b platform" and s :: "'b state" and E :: cycle_env and c :: commandData_t
  defines "ev \<equiv> cycleEvents P E c s"
  defines "Q \<equiv> reqAckEvent P E c"
  defines "R \<equiv> responseEvent P E (makeResponse P c s)"
  defines "o0 \<equiv> outcome P E 0 (resetState P E c s)"
    and "o1 \<equiv> outcome P E 1 (resetState P E c s)"
    and "o2 \<equiv> outcome P E 2 (resetState P E c s)"
  shows
    "(acked c o0 \<and> \<not> exhausted P E c s \<and> ev = [Q, R 1, ReplyAckWait o0])
  \<or> (\<not> acked c o0 \<and> acked c o1 \<and> \<not> exhausted P E c s
      \<and> ev = [Q, R 1, ReplyAckWait o0, R 2, ReplyAckWait o1])
  \<or> (\<not> acked c o0 \<and> \<not> acked c o1 \<and> acked c o2 \<and> \<not> exhausted P E c s
      \<and> ev = [Q, R 1, ReplyAckWait o0, R 2, ReplyAckWait o1, R 3, ReplyAckWait o2])
  \<or> (\<not> acked c o0 \<and> \<not> acked c o1 \<and> \<not> acked c o2 \<and> exhausted P E c s
      \<and> ev = [Q, R 1, ReplyAckWait o0, R 2, ReplyAckWait o1, R 3, ReplyAckWait o2])"
    and "trace (commandCycle P E c s) = trace s @ ev"
    and "commandDataQueue (commandCycle P E c s) = commandDataQueue s"
proof -
  define s4 where "s4 = resetState P E c s"
  define L where "L = sendResponseLoop P E c 0 s4"
  define T where "T = trace (commandCycle P E c s)"
  define X where "X = exhausted P E c s"
  have cyc: "commandCycle P E c s = snd L"
    unfolding L_def s4_def by (rule commandCycle_unfold)
  have ex: "X = (fst L = 3)"
    by (simp add: X_def exhausted_def L_def s4_def SEND_RESPONSE_ATTEMPTS_def)
  have tr4: "trace s4 = trace s @ [Q]"
    by (simp add: s4_def resetState_fields Q_def)
  have "responseData s4 = responseData (makeResponse P c s)"
    by (simp add: s4_def resetState_fields)
  then have R4: "responseEvent P E s4 = R"
    by (simp add: R_def responseEvent_def fun_eq_iff)
  have q4: "commandDataQueue s4 = commandDataQueue s"
    by (simp add: s4_def resetState_fields)
  note shape = sendResponseLoop_shape [where P = P and E = E and c = c and s = s4,
      folded L_def, unfolded R4 tr4, folded s4_def o0_def o1_def o2_def]
  have os: "outcome P E 0 s4 = o0" "outcome P E 1 s4 = o1" "outcome P E 2 s4 = o2"
    by (simp_all add: s4_def o0_def o1_def o2_def)
  have Tcases:
    "(acked c o0 \<and> \<not> X \<and> T = trace s @ [Q, R 1, ReplyAckWait o0])
    \<or> (\<not> acked c o0 \<and> acked c o1 \<and> \<not> X
        \<and> T = trace s @ [Q, R 1, ReplyAckWait o0, R 2, ReplyAckWait o1])
    \<or> (\<not> acked c o0 \<and> \<not> acked c o1 \<and> acked c o2 \<and> \<not> X
        \<and> T = trace s @ [Q, R 1, ReplyAckWait o0, R 2, ReplyAckWait o1, R 3, ReplyAckWait o2])
    \<or> (\<not> acked c o0 \<and> \<not> acked c o1 \<and> \<not> acked c o2 \<and> X
        \<and> T = trace s @ [Q, R 1, ReplyAckWait o0, R 2, ReplyAckWait o1, R 3, ReplyAckWait o2])"
    using shape(1) unfolding T_def cyc os ex
    by (elim disjE conjE) simp_all
  have evT: "ev = drop (length (trace s)) T"
    by (simp add: ev_def cycleEvents_def T_def)
  from Tcases show tr: "trace (commandCycle P E c s) = trace s @ ev"
    unfolding evT T_def [symmetric] by (elim disjE conjE) simp_all
  show "(acked c o0 \<and> \<not> exhausted P E c s \<and> ev = [Q, R 1, ReplyAckWait o0])
  \<or> (\<not> acked c o0 \<and> acked c o1 \<and> \<not> exhausted P E c s
      \<and> ev = [Q, R 1, ReplyAckWait o0, R 2, ReplyAckWait o1])
  \<or> (\<not> acked c o0 \<and> \<not> acked c o1 \<and> acked c o2 \<and> \<not> exhausted P E c s
      \<and> ev = [Q, R 1, ReplyAckWait o0, R 2, ReplyAckWait o1, R 3, ReplyAckWait o2])
  \<or> (\<not> acked c o0 \<and> \<not> acked c o1 \<and> \<not> acked c o2 \<and> exhausted P E c s
      \<and> ev = [Q, R 1, ReplyAckWait o0, R 2, ReplyAckWait o1, R 3, ReplyAckWait o2])"
    unfolding evT X_def [symmetric] using Tcases by (elim disjE conjE) simp_all
  show "commandDataQueue (commandCycle P E c s) = commandDataQueue s"
    using shape(3) q4 unfolding cyc by simp
qed

lemma split_at:
  "pre @ x # post = y # ys \<longleftrightarrow>
     (pre = [] \<and> x = y \<and> post = ys) \<or> (\<exists>pre'. pre = y # pre' \<and> pre' @ x # post = ys)"
  by (cases pre) auto

lemma sends_are_sends [simp]:
  "reqAckEvent P E c \<noteq> ReplyAckWait r" "ReplyAckWait r \<noteq> reqAckEvent P E c"
  "responseEvent P E s i \<noteq> ReplyAckWait r" "ReplyAckWait r \<noteq> responseEvent P E s i"
  by (simp_all add: reqAckEvent_def responseEvent_def)

lemma frames_out_sends [simp]:
  "frames_out (reqAckEvent P E c # es) =
     makePacket (wire_order P) PACKET_TYPE_REQ_ACK (AckData \<lparr>a_packet_id = c_packet_id c\<rparr>) # frames_out es"
  "frames_out (responseEvent P E s i # es) =
     makePacket (wire_order P) PACKET_TYPE_RESPONSE (ResponseData (responseData s)) # frames_out es"
  by (simp_all add: reqAckEvent_def responseEvent_def)

lemma makeResponse_echo:
  "r_packet_id (responseData (makeResponse P c s)) = c_packet_id c"
  "r_reg_address (responseData (makeResponse P c s)) = c_reg_address c"
  by (simp_all add: makeResponse_def Let_def split: prod.split)

subsection \<open>Where a dequeued REPLY_ACK comes from\<close>

lemma resetState_stale:
  "resetState P E c (s\<lparr>replyAckQueue := (replyAckQueue s)\<lparr>items := stale\<rparr>\<rparr>) =
   resetState P E c (s\<lparr>replyAckQueue := (replyAckQueue s)\<lparr>items := []\<rparr>\<rparr>)"
  by (simp add: resetState_def udpSendBlocked_eq makeResponse_def xQueueReset_def Let_def
        split: prod.split)

lemma xQueueReceive_source:
  "(\<forall>a. fst (xQueueReceive q w arrival) = Some a \<longrightarrow>
        a \<in> set (items q) \<or> (\<exists>t. arrival = Some (t, a)))
   \<and> (\<forall>a \<in> set (items (snd (xQueueReceive q w arrival))).
        a \<in> set (items q) \<or> (\<exists>t. arrival = Some (t, a)))"
  by (cases "items q"; cases arrival)
     (auto simp: xQueueReceive_def arrive_def split: if_splits)

lemma responseAttempt_receive:
  "fst (responseAttempt P E attempt s) =
     fst (xQueueReceive (replyAckQueue s) (pdMS_TO_TICKS TIMEOUT_RECEIVE_REPLY_ACK_MS)
            (reply_ack E (unat attempt)))"
  "replyAckQueue (snd (responseAttempt P E attempt s)) =
     snd (xQueueReceive (replyAckQueue s) (pdMS_TO_TICKS TIMEOUT_RECEIVE_REPLY_ACK_MS)
            (reply_ack E (unat attempt)))"
  by (simp_all add: responseAttempt_def udpSendBlocked_eq Let_def split: prod.split)

lemma responseAttempt_arrived:
  assumes "\<forall>a \<in> set (items (replyAckQueue s)). \<exists>i t. reply_ack E i = Some (t, a)"
  shows "\<forall>a. fst (responseAttempt P E attempt s) = Some a \<longrightarrow> (\<exists>i t. reply_ack E i = Some (t, a))"
    and "\<forall>a \<in> set (items (replyAckQueue (snd (responseAttempt P E attempt s)))).
           \<exists>i t. reply_ack E i = Some (t, a)"
  unfolding responseAttempt_receive
  using assms xQueueReceive_source [of "replyAckQueue s"
      "pdMS_TO_TICKS TIMEOUT_RECEIVE_REPLY_ACK_MS" "reply_ack E (unat attempt)"]
  by blast+

lemma stateBefore_arrived:
  assumes "\<forall>a \<in> set (items (replyAckQueue s)). \<exists>i t. reply_ack E i = Some (t, a)"
  shows "\<forall>a \<in> set (items (replyAckQueue (stateBefore P E n s))). \<exists>i t. reply_ack E i = Some (t, a)"
proof (induction n)
  case 0
  then show ?case using assms by simp
next
  case (Suc n)
  then show ?case
    using responseAttempt_arrived(2) [where s = "stateBefore P E n s" and E = E] by simp
qed

lemma outcome_arrived:
  assumes "\<forall>a \<in> set (items (replyAckQueue s)). \<exists>i t. reply_ack E i = Some (t, a)"
  shows "outcome P E n s = Some a \<Longrightarrow> \<exists>i t. reply_ack E i = Some (t, a)"
  unfolding outcome_def
  using responseAttempt_arrived(1) [OF stateBefore_arrived [OF assms]] by blast

lemma length_u32_to_bytes [simp]: "length (u32_to_bytes bo w) = 4"
  by (simp add: u32_to_bytes_def Let_def split: byte_order.split)

lemma xQueueSend_cases:
  "xQueueSend q x (Ms m) freed =
     (if length (items q) < capacity q then (True, q\<lparr>items := items q @ [x]\<rparr>)
      else if (\<exists>t. freed = Some t \<and> t < m) \<and> items q \<noteq> []
      then (True, q\<lparr>items := tl (items q) @ [x]\<rparr>)
      else (False, q))"
  by (cases freed) (simp_all add: xQueueSend_def)

lemma router_step_capacity:
  "capacity (commandDataQueue (updInputDataParseTask_step bo d s)) = capacity (commandDataQueue s)"
  "capacity (replyAckQueue (updInputDataParseTask_step bo d s)) = capacity (replyAckQueue s)"
  by (simp_all add: updInputDataParseTask_step_def xQueueSend_cases Let_def
        pdMS_TO_TICKS_def)

lemma router_snoc:
  "updInputDataParseTask bo (ds @ [d]) s0 =
     updInputDataParseTask_step bo d (updInputDataParseTask bo ds s0)"
  by (simp add: updInputDataParseTask_def)

lemma router_capacities:
  "capacity (commandDataQueue (updInputDataParseTask bo ds s0)) = 10
   \<and> capacity (replyAckQueue (updInputDataParseTask bo ds s0)) = 1"
proof (induction ds rule: rev_induct)
  case Nil
  then show ?case
    by (simp add: updInputDataParseTask_def updInputDataParseTask_init_def xQueueCreate_def)
next
  case (snoc d ds)
  then show ?case by (simp add: router_snoc router_step_capacity)
qed

lemma packet_type_byte:
  "byte_at (makePacket bo packet_type data) 0 = packet_type"
  "PACKET_TYPE_RESPONSE \<noteq> PACKET_TYPE_REQ_ACK"
  "PACKET_TYPE_REQ_ACK \<noteq> PACKET_TYPE_RESPONSE"
  by (simp_all add: byte_at_def makePacket_def PACKET_TYPE_RESPONSE_def PACKET_TYPE_REQ_ACK_def)

subsection \<open>The scenarios, evaluated\<close>

lemma run_A:
  "cycleEvents scenario_platform env_A read_command scenario_state =
     [SendTo req_ack_42 True, SendTo response_42 True, ReplyAckWait (Some \<lparr>a_packet_id = 42\<rparr>)]"
  by code_simp

lemma run_B:
  "cycleEvents scenario_platform env_B read_command scenario_state =
     [SendTo req_ack_42 True, SendTo response_42 True, ReplyAckWait None,
      SendTo response_42 True, ReplyAckWait None,
      SendTo response_42 True, ReplyAckWait None]"
  by code_simp

lemma exhausted_A_B:
  "\<not> exhausted scenario_platform env_A read_command scenario_state"
  "exhausted scenario_platform env_B read_command scenario_state"
  by code_simp+

lemma run_C:
  "cycleEvents scenario_platform env_C read_command scenario_state =
     [SendTo req_ack_42 True, SendTo response_42 True, ReplyAckWait (Some \<lparr>a_packet_id = 41\<rparr>),
      SendTo response_42 True, ReplyAckWait (Some \<lparr>a_packet_id = 42\<rparr>)]"
  by code_simp

lemma packets_42:
  "makePacket (wire_order scenario_platform) PACKET_TYPE_REQ_ACK
     (AckData \<lparr>a_packet_id = c_packet_id read_command\<rparr>) = req_ack_42"
  "makePacket (wire_order scenario_platform) PACKET_TYPE_RESPONSE
     (ResponseData (responseData (makeResponse scenario_platform read_command scenario_state)))
   = response_42"
  by code_simp+

section \<open>The claims about task2.c\<close>

text \<open>
  C1. For every command taken from the command queue the task sends exactly one REQ_ACK
  packet and then between 1 and 3 RESPONSE packets, and all RESPONSE packets of the
  cycle are the same bytes: the encoding of the one response record, whose packet id
  and register address are those of the command.
\<close>

theorem command_cycle_frames:
  "trace (commandCycle P E c s) = trace s @ cycleEvents P E c s
   \<and> (\<exists>k. 1 \<le> k \<and> k \<le> 3
        \<and> frames_out (cycleEvents P E c s) =
            makePacket (wire_order P) PACKET_TYPE_REQ_ACK (AckData \<lparr>a_packet_id = c_packet_id c\<rparr>)
            # replicate k (makePacket (wire_order P) PACKET_TYPE_RESPONSE
                            (ResponseData (responseData (makeResponse P c s))))
        \<and> length (filter (\<lambda>p. byte_at p 0 = PACKET_TYPE_REQ_ACK) (frames_out (cycleEvents P E c s))) = 1
        \<and> length (filter (\<lambda>p. byte_at p 0 = PACKET_TYPE_RESPONSE) (frames_out (cycleEvents P E c s))) = k)
   \<and> r_packet_id (responseData (makeResponse P c s)) = c_packet_id c
   \<and> r_reg_address (responseData (makeResponse P c s)) = c_reg_address c
   \<and> (\<forall>arrival q.
        xQueueReceive (commandDataQueue s) TIMEOUT_RECEIVE_COMMAND_MS arrival = (Some c, q) \<longrightarrow>
        commandsProcessTask_step P (arrival, E) s = commandCycle P E c (s\<lparr>commandDataQueue := q\<rparr>))"
proof -
  let ?resp = "makePacket (wire_order P) PACKET_TYPE_RESPONSE
                 (ResponseData (responseData (makeResponse P c s)))"
  let ?req = "makePacket (wire_order P) PACKET_TYPE_REQ_ACK (AckData \<lparr>a_packet_id = c_packet_id c\<rparr>)"
  from commandCycle_shape(1) [where P = P and E = E and c = c and s = s]
  have "frames_out (cycleEvents P E c s) = ?req # replicate 1 ?resp
      \<or> frames_out (cycleEvents P E c s) = ?req # replicate 2 ?resp
      \<or> frames_out (cycleEvents P E c s) = ?req # replicate 3 ?resp"
    by (elim disjE conjE) (simp_all add: numeral_2_eq_2 numeral_3_eq_3)
  then have k: "\<exists>k. 1 \<le> k \<and> k \<le> 3 \<and> frames_out (cycleEvents P E c s) = ?req # replicate k ?resp
        \<and> length (filter (\<lambda>p. byte_at p 0 = PACKET_TYPE_REQ_ACK) (frames_out (cycleEvents P E c s))) = 1
        \<and> length (filter (\<lambda>p. byte_at p 0 = PACKET_TYPE_RESPONSE) (frames_out (cycleEvents P E c s))) = k"
  proof (elim disjE)
    assume "frames_out (cycleEvents P E c s) = ?req # replicate 1 ?resp"
    then show ?thesis by (intro exI [of _ 1]) (simp add: packet_type_byte)
  next
    assume "frames_out (cycleEvents P E c s) = ?req # replicate 2 ?resp"
    then show ?thesis by (intro exI [of _ 2]) (simp add: packet_type_byte)
  next
    assume "frames_out (cycleEvents P E c s) = ?req # replicate 3 ?resp"
    then show ?thesis by (intro exI [of _ 3]) (simp add: packet_type_byte)
  qed
  have step: "commandsProcessTask_step P (arrival, E) s = commandCycle P E c (s\<lparr>commandDataQueue := q\<rparr>)"
    if "xQueueReceive (commandDataQueue s) TIMEOUT_RECEIVE_COMMAND_MS arrival = (Some c, q)"
    for arrival q
    using that by (simp add: commandsProcessTask_step_def)
  show ?thesis
    using k step commandCycle_shape(2) [where P = P and E = E and c = c and s = s]
      makeResponse_echo [of P c s] by blast
qed

text \<open>
  Scenarios A and B: one REQ_ACK and one response when the REPLY_ACK 42 arrives after
  the first response, one REQ_ACK and three responses when none arrives.
\<close>

theorem command_cycle_frames_witness:
  "frames_out (cycleEvents scenario_platform env_A read_command scenario_state)
     = [req_ack_42, response_42]
   \<and> frames_out (cycleEvents scenario_platform env_B read_command scenario_state)
     = [req_ack_42, response_42, response_42, response_42]
   \<and> (\<exists>k. 1 \<le> k \<and> k \<le> 3
        \<and> frames_out (cycleEvents scenario_platform env_A read_command scenario_state)
           = req_ack_42 # replicate k response_42)
   \<and> xQueueReceive (commandDataQueue scenario_state) TIMEOUT_RECEIVE_COMMAND_MS
        (Some (5, read_command)) = (Some read_command, commandDataQueue scenario_state)
   \<and> commandsProcessTask_step scenario_platform (Some (5, read_command), env_A) scenario_state
     = commandCycle scenario_platform env_A read_command scenario_state"
proof -
  have recv: "xQueueReceive (commandDataQueue scenario_state) TIMEOUT_RECEIVE_COMMAND_MS
        (Some (5, read_command)) = (Some read_command, commandDataQueue scenario_state)"
    by (simp add: xQueueReceive_def scenario_state_def xQueueCreate_def
          TIMEOUT_RECEIVE_COMMAND_MS_def)
  note inst = command_cycle_frames [of scenario_platform env_A read_command scenario_state]
  have "commandsProcessTask_step scenario_platform (Some (5, read_command), env_A) scenario_state
      = commandCycle scenario_platform env_A read_command
          (scenario_state\<lparr>commandDataQueue := commandDataQueue scenario_state\<rparr>)"
    using inst recv by blast
  then have step: "commandsProcessTask_step scenario_platform (Some (5, read_command), env_A) scenario_state
      = commandCycle scenario_platform env_A read_command scenario_state"
    by simp
  have k: "\<exists>k. 1 \<le> k \<and> k \<le> 3
        \<and> frames_out (cycleEvents scenario_platform env_A read_command scenario_state)
           = req_ack_42 # replicate k response_42"
    using inst unfolding packets_42 by (elim conjE exE) (intro exI conjI, assumption+)
  show ?thesis
    using recv step k by (simp add: run_A run_B)
qed

text \<open>
  C2. When a wait of the retry loop dequeues a REPLY_ACK whose packet id is the one of
  the command, the cycle ends there: nothing follows that event, so no further response
  is sent, and the loop was left by \<^verbatim>\<open>break\<close>, not by running out of attempts. With an
  empty queue, the wait dequeues the record that arrives exactly when its delay is
  below 100 ms.
\<close>

theorem matching_ack_ends_cycle:
  assumes "cycleEvents P E c s = pre @ ReplyAckWait (Some a) # post"
    and "a_packet_id a = c_packet_id c"
  shows "post = [] \<and> \<not> exhausted P E c s
       \<and> (\<forall>(q :: ackData_t queue) t y. items q = [] \<and> 0 < capacity q \<longrightarrow>
            fst (xQueueReceive q (pdMS_TO_TICKS TIMEOUT_RECEIVE_REPLY_ACK_MS) (Some (t, y)))
            = (if t < 100 then Some y else None))"
proof -
  have am: "acked c (Some a)" using assms(2) by (simp add: acked_def)
  from commandCycle_shape(1) [where P = P and E = E and c = c and s = s]
  have "post = [] \<and> \<not> exhausted P E c s"
    unfolding assms(1)
    by (elim disjE conjE) (use am in \<open>auto simp: split_at\<close>)
  moreover have "fst (xQueueReceive q (pdMS_TO_TICKS TIMEOUT_RECEIVE_REPLY_ACK_MS) (Some (t, y)))
            = (if t < 100 then Some y else None)"
    if "items q = [] \<and> 0 < capacity q" for q :: "ackData_t queue" and t y
    using that
    by (simp add: xQueueReceive_def pdMS_TO_TICKS_def TIMEOUT_RECEIVE_REPLY_ACK_MS_def)
  ultimately show ?thesis by blast
qed

text \<open>Scenario A: the REPLY_ACK 42 is dequeued in the first wait, and the cycle ends.\<close>

theorem matching_ack_ends_cycle_witness:
  "cycleEvents scenario_platform env_A read_command scenario_state
     = [SendTo req_ack_42 True, SendTo response_42 True] @ ReplyAckWait (Some \<lparr>a_packet_id = 42\<rparr>) # []
   \<and> a_packet_id \<lparr>a_packet_id = 42\<rparr> = c_packet_id read_command
   \<and> \<not> exhausted scenario_platform env_A read_command scenario_state
   \<and> fst (xQueueReceive (replyAckQueue scenario_state) (pdMS_TO_TICKS TIMEOUT_RECEIVE_REPLY_ACK_MS)
            (Some (30, \<lparr>a_packet_id = 42\<rparr>))) = Some \<lparr>a_packet_id = 42\<rparr>
   \<and> fst (xQueueReceive (replyAckQueue scenario_state) (pdMS_TO_TICKS TIMEOUT_RECEIVE_REPLY_ACK_MS)
            (Some (100, \<lparr>a_packet_id = 42\<rparr>))) = None"
proof -
  have ev: "cycleEvents scenario_platform env_A read_command scenario_state
     = [SendTo req_ack_42 True, SendTo response_42 True] @ ReplyAckWait (Some \<lparr>a_packet_id = 42\<rparr>) # []"
    by (simp add: run_A)
  have id: "a_packet_id \<lparr>a_packet_id = 42\<rparr> = c_packet_id read_command"
    by (simp add: read_command_def)
  have q: "items (replyAckQueue scenario_state) = [] \<and> 0 < capacity (replyAckQueue scenario_state)"
    by (simp add: scenario_state_def xQueueCreate_def)
  note inst = matching_ack_ends_cycle [OF ev id]
  have "\<not> exhausted scenario_platform env_A read_command scenario_state"
    using inst by blast
  moreover have "fst (xQueueReceive (replyAckQueue scenario_state)
        (pdMS_TO_TICKS TIMEOUT_RECEIVE_REPLY_ACK_MS) (Some (t, \<lparr>a_packet_id = 42\<rparr>)))
      = (if t < 100 then Some \<lparr>a_packet_id = 42\<rparr> else None)" for t
    using inst q by blast
  ultimately show ?thesis using ev id by simp
qed

text \<open>
  C3, as the code has it. The loop runs out of attempts exactly when no wait of the
  cycle dequeued a REPLY_ACK with the packet id of the command. The cycle has then sent
  the REQ_ACK and exactly three responses, and it leaves the command queue as it found
  it. But nothing is reported: the body of \<^verbatim>\<open>if(attempt == SEND_RESPONSE_ATTEMPTS)\<close> holds
  only the comment "Make some signal", so the last event of such a cycle is the third
  wait, and the state after the cycle is the state in which the loop ended, whether or
  not the attempts ran out.
\<close>

theorem handshake_exhausted:
  "exhausted P E c s =
     (\<forall>a. ReplyAckWait (Some a) \<in> set (cycleEvents P E c s) \<longrightarrow> a_packet_id a \<noteq> c_packet_id c)
   \<and> (exhausted P E c s \<longrightarrow>
        frames_out (cycleEvents P E c s) =
            makePacket (wire_order P) PACKET_TYPE_REQ_ACK (AckData \<lparr>a_packet_id = c_packet_id c\<rparr>)
            # replicate 3 (makePacket (wire_order P) PACKET_TYPE_RESPONSE
                            (ResponseData (responseData (makeResponse P c s))))
        \<and> length (cycleEvents P E c s) = 7
        \<and> (\<exists>r. last (cycleEvents P E c s) = ReplyAckWait r))
   \<and> commandCycle P E c s = snd (sendResponseLoop P E c 0 (resetState P E c s))
   \<and> commandDataQueue (commandCycle P E c s) = commandDataQueue s"
proof (intro conjI)
  note shape = commandCycle_shape(1) [where P = P and E = E and c = c and s = s]
  from shape
  show "exhausted P E c s =
     (\<forall>a. ReplyAckWait (Some a) \<in> set (cycleEvents P E c s) \<longrightarrow> a_packet_id a \<noteq> c_packet_id c)"
    by (elim disjE conjE) (auto simp: acked_def split: option.splits)
  from shape
  show "exhausted P E c s \<longrightarrow>
        frames_out (cycleEvents P E c s) =
            makePacket (wire_order P) PACKET_TYPE_REQ_ACK (AckData \<lparr>a_packet_id = c_packet_id c\<rparr>)
            # replicate 3 (makePacket (wire_order P) PACKET_TYPE_RESPONSE
                            (ResponseData (responseData (makeResponse P c s))))
        \<and> length (cycleEvents P E c s) = 7
        \<and> (\<exists>r. last (cycleEvents P E c s) = ReplyAckWait r)"
    by (elim disjE conjE) (simp_all add: numeral_3_eq_3)
  show "commandCycle P E c s = snd (sendResponseLoop P E c 0 (resetState P E c s))"
    by (rule commandCycle_unfold)
  show "commandDataQueue (commandCycle P E c s) = commandDataQueue s"
    by (rule commandCycle_shape(3))
qed

text \<open>
  Scenario B: no REPLY_ACK arrives. The cycle is the REQ_ACK and three rounds of
  response and timed-out wait, and nothing after the third wait.
\<close>

theorem handshake_exhausted_witness:
  "exhausted scenario_platform env_B read_command scenario_state
   \<and> cycleEvents scenario_platform env_B read_command scenario_state
       = [SendTo req_ack_42 True, SendTo response_42 True, ReplyAckWait None,
          SendTo response_42 True, ReplyAckWait None,
          SendTo response_42 True, ReplyAckWait None]
   \<and> frames_out (cycleEvents scenario_platform env_B read_command scenario_state)
       = [req_ack_42, response_42, response_42, response_42]
   \<and> (\<exists>r. last (cycleEvents scenario_platform env_B read_command scenario_state) = ReplyAckWait r)
   \<and> commandCycle scenario_platform env_B read_command scenario_state
       = snd (sendResponseLoop scenario_platform env_B read_command 0
                (resetState scenario_platform env_B read_command scenario_state))
   \<and> \<not> exhausted scenario_platform env_A read_command scenario_state"
proof -
  note inst = handshake_exhausted [of scenario_platform env_B read_command scenario_state]
  have ex: "exhausted scenario_platform env_B read_command scenario_state"
    by (rule exhausted_A_B)
  have "frames_out (cycleEvents scenario_platform env_B read_command scenario_state)
       = req_ack_42 # replicate 3 response_42"
    using inst ex unfolding packets_42 by blast
  moreover have "\<exists>r. last (cycleEvents scenario_platform env_B read_command scenario_state)
       = ReplyAckWait r"
    using inst ex by blast
  moreover have "commandCycle scenario_platform env_B read_command scenario_state
       = snd (sendResponseLoop scenario_platform env_B read_command 0
                (resetState scenario_platform env_B read_command scenario_state))"
    using inst by blast
  ultimately show ?thesis
    using ex exhausted_A_B(1) by (simp add: run_B numeral_3_eq_3)
qed

text \<open>
  C4. A wait of the retry loop that dequeues a REPLY_ACK with another packet id does not
  end the loop by \<^verbatim>\<open>break\<close>: when it was the wait of the third attempt, the loop has run
  out of attempts and the cycle ends there; otherwise the next event is the response of
  the next attempt. The packets before the event are the REQ_ACK and one response for
  every attempt so far.
\<close>

theorem mismatching_ack_consumes_attempt:
  assumes "cycleEvents P E c s = pre @ ReplyAckWait (Some a) # post"
    and "a_packet_id a \<noteq> c_packet_id c"
  shows "(length (frames_out pre) = 4 \<and> post = [] \<and> exhausted P E c s)
       \<or> (length (frames_out pre) < 4
          \<and> (\<exists>ok rest. post = SendTo (makePacket (wire_order P) PACKET_TYPE_RESPONSE
                                       (ResponseData (responseData (makeResponse P c s)))) ok # rest))"
proof -
  have am: "\<not> acked c (Some a)" using assms(2) by (simp add: acked_def)
  have R: "\<exists>ok. responseEvent P E (makeResponse P c s) i =
      SendTo (makePacket (wire_order P) PACKET_TYPE_RESPONSE
                (ResponseData (responseData (makeResponse P c s)))) ok" for i
    by (simp add: responseEvent_def)
  from commandCycle_shape(1) [where P = P and E = E and c = c and s = s] show ?thesis
    unfolding assms(1)
    by (elim disjE conjE) (use am R in \<open>auto simp: split_at\<close>)
qed

text \<open>
  Scenario C: the REPLY_ACK 41 is dequeued in the first wait for command 42, and the
  second response follows.
\<close>

theorem mismatching_ack_consumes_attempt_witness:
  "cycleEvents scenario_platform env_C read_command scenario_state
     = [SendTo req_ack_42 True, SendTo response_42 True] @ ReplyAckWait (Some \<lparr>a_packet_id = 41\<rparr>)
       # [SendTo response_42 True, ReplyAckWait (Some \<lparr>a_packet_id = 42\<rparr>)]
   \<and> a_packet_id \<lparr>a_packet_id = 41\<rparr> \<noteq> c_packet_id read_command
   \<and> length (frames_out [SendTo req_ack_42 True, SendTo response_42 True]) < 4
   \<and> (\<exists>ok rest. [SendTo response_42 True, ReplyAckWait (Some \<lparr>a_packet_id = 42\<rparr>)]
                  = SendTo response_42 ok # rest)"
proof -
  have ev: "cycleEvents scenario_platform env_C read_command scenario_state
     = [SendTo req_ack_42 True, SendTo response_42 True] @ ReplyAckWait (Some \<lparr>a_packet_id = 41\<rparr>)
       # [SendTo response_42 True, ReplyAckWait (Some \<lparr>a_packet_id = 42\<rparr>)]"
    by (simp add: run_C)
  have id: "a_packet_id \<lparr>a_packet_id = 41\<rparr> \<noteq> c_packet_id read_command"
    by (simp add: read_command_def)
  from mismatching_ack_consumes_attempt [OF ev id]
  have "\<exists>ok rest. [SendTo response_42 True, ReplyAckWait (Some \<lparr>a_packet_id = 42\<rparr>)]
                  = SendTo response_42 ok # rest"
    unfolding packets_42 by auto
  then show ?thesis using ev id by simp
qed

text \<open>
  C5. The response record of a command carries the packet id and the register address
  of the command. For the command type 0 (read) its status and value are what
  \<^verbatim>\<open>reg_read\<close> returns for that address; for the type 1 (write) its status is what
  \<^verbatim>\<open>reg_write\<close> returns for the address and the value of the command, and its value is
  the value of the command; for every other type its status is \<^verbatim>\<open>RESPONSE_FAULT\<close> and
  the registers are not touched.
\<close>

theorem response_record:
  "r_packet_id (responseData (makeResponse P c s)) = c_packet_id c
   \<and> r_reg_address (responseData (makeResponse P c s)) = c_reg_address c
   \<and> (c_command_type c = COMMAND_TYPE_READ_REGISTER \<longrightarrow>
        (r_response_status (responseData (makeResponse P c s)),
         r_reg_value (responseData (makeResponse P c s)),
         registers (makeResponse P c s))
        = reg_read P (registers s) (c_reg_address c) (r_reg_value (responseData s)))
   \<and> (c_command_type c = COMMAND_TYPE_WRITE_REGISTER \<longrightarrow>
        (r_response_status (responseData (makeResponse P c s)), registers (makeResponse P c s))
        = reg_write P (registers s) (c_reg_address c) (c_reg_value c)
        \<and> r_reg_value (responseData (makeResponse P c s)) = c_reg_value c)
   \<and> (c_command_type c \<noteq> COMMAND_TYPE_READ_REGISTER
        \<and> c_command_type c \<noteq> COMMAND_TYPE_WRITE_REGISTER \<longrightarrow>
        r_response_status (responseData (makeResponse P c s)) = RESPONSE_FAULT
        \<and> registers (makeResponse P c s) = registers s)"
  by (simp add: makeResponse_def Let_def COMMAND_TYPE_READ_REGISTER_def
        COMMAND_TYPE_WRITE_REGISTER_def split: prod.split)

text \<open>
  A read of register 0x1000 answers Ok with 0xABCD, a write of 7 answers Ok with 7, and
  the command type 9 answers Fault.
\<close>

theorem response_record_witness:
  "c_command_type read_command = COMMAND_TYPE_READ_REGISTER
   \<and> r_response_status (responseData (makeResponse scenario_platform read_command scenario_state))
       = RESPONSE_OK
   \<and> r_reg_value (responseData (makeResponse scenario_platform read_command scenario_state))
       = 0xABCD
   \<and> c_command_type write_command = COMMAND_TYPE_WRITE_REGISTER
   \<and> r_response_status (responseData (makeResponse scenario_platform write_command scenario_state))
       = RESPONSE_OK
   \<and> r_reg_value (responseData (makeResponse scenario_platform write_command scenario_state)) = 7
   \<and> c_command_type unknown_command \<noteq> COMMAND_TYPE_READ_REGISTER
   \<and> c_command_type unknown_command \<noteq> COMMAND_TYPE_WRITE_REGISTER
   \<and> r_response_status (responseData (makeResponse scenario_platform unknown_command scenario_state))
       = RESPONSE_FAULT"
proof -
  have kinds: "c_command_type read_command = COMMAND_TYPE_READ_REGISTER"
    "c_command_type write_command = COMMAND_TYPE_WRITE_REGISTER"
    "c_command_type unknown_command \<noteq> COMMAND_TYPE_READ_REGISTER"
    "c_command_type unknown_command \<noteq> COMMAND_TYPE_WRITE_REGISTER"
    by (simp_all add: read_command_def write_command_def unknown_command_def
          COMMAND_TYPE_READ_REGISTER_def COMMAND_TYPE_WRITE_REGISTER_def)
  have rd: "reg_read scenario_platform (registers scenario_state) (c_reg_address read_command)
              (r_reg_value (responseData scenario_state))
            = (RESPONSE_OK, 0xABCD, registers scenario_state)"
    by (simp add: scenario_platform_def scenario_state_def read_command_def)
  have wr: "reg_write scenario_platform (registers scenario_state) (c_reg_address write_command)
              (c_reg_value write_command)
            = (RESPONSE_OK, (0x1000, 7) # registers scenario_state)"
    by (simp add: scenario_platform_def scenario_state_def write_command_def)
  have "r_response_status (responseData (makeResponse scenario_platform read_command scenario_state))
          = RESPONSE_OK
      \<and> r_reg_value (responseData (makeResponse scenario_platform read_command scenario_state))
          = 0xABCD"
    using response_record [of scenario_platform read_command scenario_state] kinds(1) rd by simp
  moreover have "r_response_status (responseData (makeResponse scenario_platform write_command scenario_state))
          = RESPONSE_OK
      \<and> r_reg_value (responseData (makeResponse scenario_platform write_command scenario_state)) = 7"
    using response_record [of scenario_platform write_command scenario_state] kinds(2) wr
    by (simp add: write_command_def)
  moreover have "r_response_status
        (responseData (makeResponse scenario_platform unknown_command scenario_state)) = RESPONSE_FAULT"
    using response_record [of scenario_platform unknown_command scenario_state] kinds(3,4) by blast
  ultimately show ?thesis using kinds by blast
qed

text \<open>
  C6. The cycle empties the REPLY_ACK queue before the first attempt. Whatever the
  queue holds when the cycle starts has no influence on the cycle, and every REPLY_ACK
  that a wait of the cycle dequeues is one that arrived during an attempt of this cycle.
\<close>

theorem reply_ack_queue_reset:
  "commandCycle P E c (s\<lparr>replyAckQueue := (replyAckQueue s)\<lparr>items := stale\<rparr>\<rparr>) =
     commandCycle P E c (s\<lparr>replyAckQueue := (replyAckQueue s)\<lparr>items := []\<rparr>\<rparr>)
   \<and> items (replyAckQueue (resetState P E c s)) = []
   \<and> (\<forall>a. ReplyAckWait (Some a) \<in> set (cycleEvents P E c s) \<longrightarrow>
          (\<exists>i t. reply_ack E i = Some (t, a)))"
proof (intro conjI)
  show "commandCycle P E c (s\<lparr>replyAckQueue := (replyAckQueue s)\<lparr>items := stale\<rparr>\<rparr>) =
     commandCycle P E c (s\<lparr>replyAckQueue := (replyAckQueue s)\<lparr>items := []\<rparr>\<rparr>)"
    unfolding commandCycle_unfold resetState_stale [where s = s and stale = stale] ..
  show "items (replyAckQueue (resetState P E c s)) = []"
    by (rule resetState_fields)
  have empty: "\<forall>a \<in> set (items (replyAckQueue (resetState P E c s))). \<exists>i t. reply_ack E i = Some (t, a)"
    by (simp add: resetState_fields)
  note arrived = outcome_arrived [OF empty]
  have "\<exists>n. outcome P E n (resetState P E c s) = Some a"
    if "ReplyAckWait (Some a) \<in> set (cycleEvents P E c s)" for a
    using commandCycle_shape(1) [where P = P and E = E and c = c and s = s] that
    by (elim disjE conjE) (auto dest: sym)
  then show "\<forall>a. ReplyAckWait (Some a) \<in> set (cycleEvents P E c s) \<longrightarrow>
          (\<exists>i t. reply_ack E i = Some (t, a))"
    using arrived by blast
qed

text \<open>
  The REPLY_ACK 42 of an earlier cycle is in the queue when command 42 is taken, and no
  REPLY_ACK arrives during the cycle: no wait dequeues it, all three attempts time out.
\<close>

theorem reply_ack_queue_reset_witness:
  "commandCycle scenario_platform env_B read_command
     (scenario_state\<lparr>replyAckQueue := (replyAckQueue scenario_state)\<lparr>items := [\<lparr>a_packet_id = 42\<rparr>]\<rparr>\<rparr>)
   = commandCycle scenario_platform env_B read_command
       (scenario_state\<lparr>replyAckQueue := (replyAckQueue scenario_state)\<lparr>items := []\<rparr>\<rparr>)
   \<and> (\<forall>a. ReplyAckWait (Some a) \<notin> set (cycleEvents scenario_platform env_B read_command
        (scenario_state\<lparr>replyAckQueue := (replyAckQueue scenario_state)\<lparr>items := [\<lparr>a_packet_id = 42\<rparr>]\<rparr>\<rparr>)))
   \<and> cycleEvents scenario_platform env_B read_command
        (scenario_state\<lparr>replyAckQueue := (replyAckQueue scenario_state)\<lparr>items := [\<lparr>a_packet_id = 42\<rparr>]\<rparr>\<rparr>)
      = [SendTo req_ack_42 True, SendTo response_42 True, ReplyAckWait None,
         SendTo response_42 True, ReplyAckWait None,
         SendTo response_42 True, ReplyAckWait None]
   \<and> ReplyAckWait (Some \<lparr>a_packet_id = 42\<rparr>)
        \<in> set (cycleEvents scenario_platform env_A read_command scenario_state)
   \<and> (\<exists>i t. reply_ack env_A i = Some (t, \<lparr>a_packet_id = 42\<rparr>))"
proof -
  have none: "reply_ack env_B i = None" for i
    by (simp add: env_B_def)
  have dequeued: "ReplyAckWait (Some \<lparr>a_packet_id = 42\<rparr>)
        \<in> set (cycleEvents scenario_platform env_A read_command scenario_state)"
    by (simp add: run_A)
  have arrived: "\<exists>i t. reply_ack env_A i = Some (t, \<lparr>a_packet_id = 42\<rparr>)"
    using reply_ack_queue_reset [where P = scenario_platform and E = env_A and c = read_command
        and s = scenario_state and stale = "[]"] dequeued
    by blast
  have run: "cycleEvents scenario_platform env_B read_command
        (scenario_state\<lparr>replyAckQueue := (replyAckQueue scenario_state)\<lparr>items := [\<lparr>a_packet_id = 42\<rparr>]\<rparr>\<rparr>)
      = [SendTo req_ack_42 True, SendTo response_42 True, ReplyAckWait None,
         SendTo response_42 True, ReplyAckWait None,
         SendTo response_42 True, ReplyAckWait None]"
    by code_simp
  show ?thesis
    using reply_ack_queue_reset [where P = scenario_platform and E = env_B and c = read_command
        and s = scenario_state and stale = "[\<lparr>a_packet_id = 42\<rparr>]"]
      reply_ack_queue_reset [where P = scenario_platform and E = env_B and c = read_command
        and s = "scenario_state\<lparr>replyAckQueue :=
                   (replyAckQueue scenario_state)\<lparr>items := [\<lparr>a_packet_id = 42\<rparr>]\<rparr>\<rparr>"
        and stale = "[]"]
      none run dequeued arrived
    by simp
qed

text \<open>
  C7, as the code has it. The receiving task creates the command queue with capacity 10
  and the REPLY_ACK queue with capacity 1, and no step changes a capacity. With these
  capacities, a valid datagram of type Command puts its record at the end of the
  command queue, and one of type REPLY_ACK puts its record at the end of the REPLY_ACK
  queue: at once when there is room, and after the consumer has taken the oldest entry
  when that happens less than 1000 ms after the call. Otherwise the record is dropped,
  and that is all: where the comment asks for a signal the code has only \<^verbatim>\<open>continue\<close>,
  so the step leaves the state exactly as it was, as it does for a valid datagram of
  any other type. In every case the task goes on with the next datagram.
\<close>

theorem ingress_router_step:
  assumes "capacity (commandDataQueue s) = 10" and "capacity (replyAckQueue s) = 1"
    and "recv_ok d" and "packet_ok d"
  shows "(byte_at (packet d) 0 = PACKET_TYPE_COMMAND \<longrightarrow>
           updInputDataParseTask_step bo d s =
             (if length (items (commandDataQueue s)) < 10
              then s\<lparr>commandDataQueue := (commandDataQueue s)
                     \<lparr>items := items (commandDataQueue s) @ [packetToCommandData bo (packet d)]\<rparr>\<rparr>
              else if \<exists>t. slot_freed d = Some t \<and> t < 1000
              then s\<lparr>commandDataQueue := (commandDataQueue s)
                     \<lparr>items := tl (items (commandDataQueue s)) @ [packetToCommandData bo (packet d)]\<rparr>\<rparr>
              else s))
       \<and> (byte_at (packet d) 0 = PACKET_TYPE_REPLY_ACK \<longrightarrow>
           updInputDataParseTask_step bo d s =
             (if length (items (replyAckQueue s)) < 1
              then s\<lparr>replyAckQueue := (replyAckQueue s)
                     \<lparr>items := items (replyAckQueue s) @ [packetToReplyAck bo (packet d)]\<rparr>\<rparr>
              else if \<exists>t. slot_freed d = Some t \<and> t < 1000
              then s\<lparr>replyAckQueue := (replyAckQueue s)
                     \<lparr>items := tl (items (replyAckQueue s)) @ [packetToReplyAck bo (packet d)]\<rparr>\<rparr>
              else s))
       \<and> (byte_at (packet d) 0 \<noteq> PACKET_TYPE_COMMAND \<and> byte_at (packet d) 0 \<noteq> PACKET_TYPE_REPLY_ACK \<longrightarrow>
           updInputDataParseTask_step bo d s = s)
       \<and> trace (updInputDataParseTask_step bo d s) = trace s
       \<and> capacity (commandDataQueue (updInputDataParseTask_step bo d s)) = 10
       \<and> capacity (replyAckQueue (updInputDataParseTask_step bo d s)) = 1
       \<and> capacity (commandDataQueue (updInputDataParseTask bo ds s0)) = 10
       \<and> capacity (replyAckQueue (updInputDataParseTask bo ds s0)) = 1
       \<and> updInputDataParseTask bo (ds @ [d]) s0
           = updInputDataParseTask_step bo d (updInputDataParseTask bo ds s0)"
proof -
  have ne: "PACKET_TYPE_COMMAND \<noteq> PACKET_TYPE_REPLY_ACK"
    by (simp add: PACKET_TYPE_COMMAND_def PACKET_TYPE_REPLY_ACK_def)
  have step: "(byte_at (packet d) 0 = PACKET_TYPE_COMMAND \<longrightarrow>
           updInputDataParseTask_step bo d s =
             (if length (items (commandDataQueue s)) < 10
              then s\<lparr>commandDataQueue := (commandDataQueue s)
                     \<lparr>items := items (commandDataQueue s) @ [packetToCommandData bo (packet d)]\<rparr>\<rparr>
              else if \<exists>t. slot_freed d = Some t \<and> t < 1000
              then s\<lparr>commandDataQueue := (commandDataQueue s)
                     \<lparr>items := tl (items (commandDataQueue s)) @ [packetToCommandData bo (packet d)]\<rparr>\<rparr>
              else s))
       \<and> (byte_at (packet d) 0 = PACKET_TYPE_REPLY_ACK \<longrightarrow>
           updInputDataParseTask_step bo d s =
             (if length (items (replyAckQueue s)) < 1
              then s\<lparr>replyAckQueue := (replyAckQueue s)
                     \<lparr>items := items (replyAckQueue s) @ [packetToReplyAck bo (packet d)]\<rparr>\<rparr>
              else if \<exists>t. slot_freed d = Some t \<and> t < 1000
              then s\<lparr>replyAckQueue := (replyAckQueue s)
                     \<lparr>items := tl (items (replyAckQueue s)) @ [packetToReplyAck bo (packet d)]\<rparr>\<rparr>
              else s))
       \<and> (byte_at (packet d) 0 \<noteq> PACKET_TYPE_COMMAND \<and> byte_at (packet d) 0 \<noteq> PACKET_TYPE_REPLY_ACK \<longrightarrow>
           updInputDataParseTask_step bo d s = s)"
    using assms ne
    by (auto simp: updInputDataParseTask_step_def xQueueSend_cases Let_def
        pdMS_TO_TICKS_def TIMEOUT_SEND_COMMAND_MS_def TIMEOUT_SEND_REPLY_ACK_MS_def)
  have tr: "trace (updInputDataParseTask_step bo d s) = trace s"
    by (simp add: updInputDataParseTask_step_def xQueueSend_cases Let_def pdMS_TO_TICKS_def)
  show ?thesis
    using step tr assms(1,2) router_capacities [of bo ds s0] router_snoc [of bo ds d s0]
    by (simp only: router_step_capacity simp_thms)
qed

text \<open>
  Scenario D: ten commands fill the command queue and nothing takes them; the eleventh
  command datagram is dropped, and the state after it is the state before it: no
  failure is recorded anywhere. Likewise the second of two REPLY_ACK datagrams, while
  the first is queued; and a datagram of type Response changes nothing.
\<close>

theorem ingress_router_step_witness:
  "recv_ok command_datagram \<and> packet_ok command_datagram
   \<and> byte_at (packet command_datagram) 0 = PACKET_TYPE_COMMAND
   \<and> items (commandDataQueue
        (updInputDataParseTask BigEndian (replicate 10 command_datagram) scenario_state))
       = replicate 10 read_command
   \<and> updInputDataParseTask BigEndian (replicate 10 command_datagram @ [command_datagram]) scenario_state
       = updInputDataParseTask BigEndian (replicate 10 command_datagram) scenario_state
   \<and> byte_at (packet reply_ack_datagram) 0 = PACKET_TYPE_REPLY_ACK
   \<and> items (replyAckQueue (updInputDataParseTask BigEndian [reply_ack_datagram] scenario_state))
       = [\<lparr>a_packet_id = 42\<rparr>]
   \<and> updInputDataParseTask BigEndian [reply_ack_datagram, reply_ack_datagram] scenario_state
       = updInputDataParseTask BigEndian [reply_ack_datagram] scenario_state
   \<and> updInputDataParseTask BigEndian [response_datagram] scenario_state
       = updInputDataParseTask BigEndian [] scenario_state"
proof -
  have valid: "recv_ok command_datagram" "packet_ok command_datagram"
    "recv_ok reply_ack_datagram" "packet_ok reply_ack_datagram"
    "recv_ok response_datagram" "packet_ok response_datagram"
    by (simp_all add: command_datagram_def reply_ack_datagram_def response_datagram_def)
  have kind: "byte_at (packet command_datagram) 0 = PACKET_TYPE_COMMAND"
    "byte_at (packet reply_ack_datagram) 0 = PACKET_TYPE_REPLY_ACK"
    "byte_at (packet response_datagram) 0 \<noteq> PACKET_TYPE_COMMAND"
    "byte_at (packet response_datagram) 0 \<noteq> PACKET_TYPE_REPLY_ACK"
    by (simp_all add: command_datagram_def reply_ack_datagram_def response_datagram_def
          byte_at_def makePacket_def PACKET_TYPE_COMMAND_def PACKET_TYPE_REPLY_ACK_def
          PACKET_TYPE_RESPONSE_def)
  have never: "slot_freed command_datagram = None" "slot_freed reply_ack_datagram = None"
    by (simp_all add: command_datagram_def reply_ack_datagram_def)
  have cap10: "capacity (commandDataQueue
        (updInputDataParseTask BigEndian (replicate 10 command_datagram) scenario_state)) = 10"
    "capacity (replyAckQueue
        (updInputDataParseTask BigEndian (replicate 10 command_datagram) scenario_state)) = 1"
    using router_capacities by blast+
  have cap1: "capacity (commandDataQueue
        (updInputDataParseTask BigEndian [reply_ack_datagram] scenario_state)) = 10"
    "capacity (replyAckQueue
        (updInputDataParseTask BigEndian [reply_ack_datagram] scenario_state)) = 1"
    using router_capacities by blast+
  have cap0: "capacity (commandDataQueue (updInputDataParseTask BigEndian [] scenario_state)) = 10"
    "capacity (replyAckQueue (updInputDataParseTask BigEndian [] scenario_state)) = 1"
    using router_capacities by blast+
  have full: "items (commandDataQueue
        (updInputDataParseTask BigEndian (replicate 10 command_datagram) scenario_state))
       = replicate 10 read_command"
    by code_simp
  have one: "items (replyAckQueue (updInputDataParseTask BigEndian [reply_ack_datagram] scenario_state))
       = [\<lparr>a_packet_id = 42\<rparr>]"
    by code_simp
  have eleventh: "updInputDataParseTask BigEndian (replicate 10 command_datagram @ [command_datagram])
        scenario_state
       = updInputDataParseTask BigEndian (replicate 10 command_datagram) scenario_state"
    using ingress_router_step [OF cap10 valid(1,2), of BigEndian "replicate 10 command_datagram"
        scenario_state] kind never full
    by simp
  have second: "updInputDataParseTask BigEndian ([reply_ack_datagram] @ [reply_ack_datagram])
        scenario_state
       = updInputDataParseTask BigEndian [reply_ack_datagram] scenario_state"
    using ingress_router_step [OF cap1 valid(3,4), of BigEndian "[reply_ack_datagram]"
        scenario_state] kind never one
    by simp
  have other: "updInputDataParseTask BigEndian ([] @ [response_datagram]) scenario_state
       = updInputDataParseTask BigEndian [] scenario_state"
    using ingress_router_step [OF cap0 valid(5,6), of BigEndian "[]" scenario_state] kind
    by simp
  show ?thesis
    using valid kind full one eleventh second other by simp
qed

text \<open>
  C8, as the code has it. \<^verbatim>\<open>udpSendBlocked\<close> returns nothing and drops the result of
  \<^verbatim>\<open>FreeRTOS_sendto\<close>: the state it leaves to its caller is the same after a failed and
  after a successful write (only the transport's side of the trace differs). It hands
  the packet to the transport once and releases the mutex in both cases.
\<close>

theorem udpSendBlocked_discards_result:
  "(udpSendBlocked bo packet_type data ok s)\<lparr>trace := []\<rparr> =
     (udpSendBlocked bo packet_type data ok' s)\<lparr>trace := []\<rparr>
   \<and> trace (udpSendBlocked bo packet_type data ok s) =
       trace s @ [SendTo (makePacket bo packet_type data) ok]
   \<and> \<not> udpSendMutex (udpSendBlocked bo packet_type data ok s)"
  by (simp add: udpSendBlocked_eq)

theorem udpSendBlocked_discards_result_witness:
  "(udpSendBlocked BigEndian PACKET_TYPE_REQ_ACK (AckData \<lparr>a_packet_id = 42\<rparr>) False scenario_state)
     \<lparr>trace := []\<rparr>
   = (udpSendBlocked BigEndian PACKET_TYPE_REQ_ACK (AckData \<lparr>a_packet_id = 42\<rparr>) True scenario_state)
     \<lparr>trace := []\<rparr>
   \<and> trace (udpSendBlocked BigEndian PACKET_TYPE_REQ_ACK (AckData \<lparr>a_packet_id = 42\<rparr>) False
        scenario_state) = [SendTo req_ack_42 False]"
proof -
  have "makePacket BigEndian PACKET_TYPE_REQ_ACK (AckData \<lparr>a_packet_id = 42\<rparr>) = req_ack_42"
    by code_simp
  moreover have "trace scenario_state = []"
    by (simp add: scenario_state_def)
  ultimately show ?thesis
    using udpSendBlocked_discards_result [of BigEndian PACKET_TYPE_REQ_ACK
        "AckData \<lparr>a_packet_id = 42\<rparr>" False scenario_state True]
    by simp
qed

text \<open>
  C8, as the specification has it, fails: when the transport does not write the
  response packet of command 42, \<^verbatim>\<open>FreeRTOS_sendto\<close> returns 0, and what
  \<^verbatim>\<open>udpSendBlocked\<close> leaves to its caller is what it leaves after a successful write; the
  rest of the cycle is the same too.
\<close>

theorem transmit_failure_not_reported:
  "fst (FreeRTOS_sendto False response_42 scenario_state) = 0
   \<and> fst (FreeRTOS_sendto True response_42 scenario_state) = 14
   \<and> (udpSendBlocked BigEndian PACKET_TYPE_RESPONSE
        (ResponseData \<lparr>r_packet_id = 42, r_response_status = 1, r_reg_address = 0x1000,
                       r_reg_value = 0xABCD\<rparr>) False scenario_state)\<lparr>trace := []\<rparr>
     = (udpSendBlocked BigEndian PACKET_TYPE_RESPONSE
        (ResponseData \<lparr>r_packet_id = 42, r_response_status = 1, r_reg_address = 0x1000,
                       r_reg_value = 0xABCD\<rparr>) True scenario_state)\<lparr>trace := []\<rparr>
   \<and> frames_out (cycleEvents scenario_platform (env_A\<lparr>sendto_ok := (\<lambda>n. False)\<rparr>) read_command
        scenario_state)
     = frames_out (cycleEvents scenario_platform env_A read_command scenario_state)"
proof -
  have "frames_out (cycleEvents scenario_platform (env_A\<lparr>sendto_ok := (\<lambda>n. False)\<rparr>) read_command
        scenario_state) = [req_ack_42, response_42]"
    by code_simp
  then show ?thesis
    by (simp add: FreeRTOS_sendto_def response_42_def udpSendBlocked_eq run_A)
qed

text \<open>
  C9. The encoding of a Command or Response frame has 14 bytes and that of a RequestAck
  or ReplyAck frame has 5, whatever the fields hold and whatever the byte order: the
  length is a function of the kind of the frame, and never more than \<^verbatim>\<open>PACKET_MAX_SIZE\<close>.
\<close>

theorem encode_length:
  "length (encode bo f) =
     (case kind_of f of Command \<Rightarrow> 14 | Response \<Rightarrow> 14 | RequestAck \<Rightarrow> 5 | ReplyAck \<Rightarrow> 5)
   \<and> length (encode bo f) \<le> PACKET_MAX_SIZE"
  by (cases f) (simp_all add: makePacket_def PACKET_MAX_SIZE_def)

theorem encode_length_witness:
  "length (encode BigEndian (CommandFrame read_command)) = 14
   \<and> length (encode LittleEndian (ResponseFrame (responseData scenario_state))) = 14
   \<and> length (encode BigEndian (RequestAckFrame \<lparr>a_packet_id = 42\<rparr>)) = 5
   \<and> length (encode LittleEndian (ReplyAckFrame \<lparr>a_packet_id = 42\<rparr>)) = 5
   \<and> encode BigEndian (RequestAckFrame \<lparr>a_packet_id = 42\<rparr>) = req_ack_42"
proof -
  have "encode BigEndian (RequestAckFrame \<lparr>a_packet_id = 42\<rparr>) = req_ack_42"
    by code_simp
  then show ?thesis
    using encode_length [of BigEndian "CommandFrame read_command"]
      encode_length [of LittleEndian "ResponseFrame (responseData scenario_state)"]
      encode_length [of BigEndian "RequestAckFrame \<lparr>a_packet_id = 42\<rparr>"]
      encode_length [of LittleEndian "ReplyAckFrame \<lparr>a_packet_id = 42\<rparr>"]
    by simp
qed

end
